theory Spec2Isabelle
  imports Main
begin

section \<open>Python values used by app.py\<close>

text \<open>
  A string is the list of the bytes of its UTF-8 encoding. Two methods of Python's \<open>str\<close>
  work by the Unicode character tables, which are no part of the program:
  \<open>str.lower()\<close> and \<open>str.strip()\<close> without argument. They are not defined here. The
  functions that call them take them as the parameters \<open>lower\<close> and \<open>strip\<close>, and every
  property below is proved for every \<open>lower\<close> and every \<open>strip\<close>.

  Stripping a given set of ASCII characters (\<open>strip('"')\<close>, \<open>strip("'")\<close>, \<open>rstrip("/")\<close>)
  is defined: in UTF-8 a byte below 128 is always the character of that code, so the
  bytes stripped are exactly the characters stripped.
\<close>

definition py_lstrip :: "char list \<Rightarrow> string \<Rightarrow> string" where
  "py_lstrip cs s = dropWhile (\<lambda>c. c \<in> set cs) s"

definition py_rstrip :: "char list \<Rightarrow> string \<Rightarrow> string" where
  "py_rstrip cs s = rev (dropWhile (\<lambda>c. c \<in> set cs) (rev s))"

definition py_strip :: "char list \<Rightarrow> string \<Rightarrow> string" where
  "py_strip cs s = py_rstrip cs (py_lstrip cs s)"

text \<open>\<open>sep.join(xs)\<close>.\<close>

fun py_join :: "string \<Rightarrow> string list \<Rightarrow> string" where
  "py_join sep [] = []"
| "py_join sep [x] = x"
| "py_join sep (x # y # ys) = x @ sep @ py_join sep (y # ys)"

text \<open>\<open>str(x)\<close> of a value that is a string or \<open>None\<close>, as an f-string formats it.\<close>

definition py_str :: "string option \<Rightarrow> string" where
  "py_str v = (case v of None \<Rightarrow> ''None'' | Some s \<Rightarrow> s)"

text \<open>\<open>v or ""\<close> for a value that is a string or \<open>None\<close>.\<close>

definition or_empty :: "string option \<Rightarrow> string" where
  "or_empty v = (case v of None \<Rightarrow> [] | Some s \<Rightarrow> s)"

text \<open>
  A key of a JSON object as \<open>dict.get\<close> sees it: missing, present with \<open>null\<close>, or
  present with a value. \<open>d.get(k, default)\<close> gives the default only for a missing key.
\<close>

datatype 'a jfield = Absent | Null | Val 'a

text \<open>
  Exceptions. \<open>RequestError\<close> stands for everything an HTTP call raises
  (\<open>raise_for_status\<close> on a non-2xx answer, a transport failure, an SDK error);
  \<open>AttributeError\<close> is \<open>None.get(...)\<close>; \<open>OSError\<close> is what the local file system raises.
\<close>

datatype exn = RequestError | AttributeError | OSError

text \<open>
  What the page shows. The constructors ending in \<open>_exc\<close> are the f-strings that format
  a caught exception after a fixed prefix.
\<close>

datatype ui_msg =
    St_error string
  | St_error_exc string exn
  | St_warning string
  | St_success string
  | St_info string
  | St_markdown string
  | St_write string

text \<open>
  How a pass over the script ends at a handler: it goes on, \<open>st.rerun()\<close> or
  \<open>st.stop()\<close> end it (both raise control exceptions that \<open>except Exception\<close> does not
  catch), or an exception nobody catches ends it.
\<close>

datatype control = Continue | Rerun | Stop | Uncaught exn

section \<open>Settings loader\<close>

text \<open>
  \<open>read_setting\<close> (lines 15-20). The environment is the map that \<open>os.getenv\<close> reads
  after \<open>load_dotenv()\<close>; \<open>strip\<close> is \<open>str.strip()\<close>. \<open>Inl\<close> is the \<open>st.error\<close> followed
  by \<open>st.stop()\<close>.
\<close>

definition read_setting ::
  "(string \<Rightarrow> string) \<Rightarrow> (string \<rightharpoonup> string) \<Rightarrow> string \<Rightarrow> bool \<Rightarrow> string \<Rightarrow> ui_msg + string" where
  "read_setting strip env key required dflt =
     (let val = py_strip [CHR 0x27] (py_strip [CHR 0x22] (strip
                  (case env key of None \<Rightarrow> dflt | Some v \<Rightarrow> v)))
      in if required \<and> val = []
         then Inl (St_error (''Missing setting: '' @ key @ ''. Add it to .env or environment variables.''))
         else Inr val)"

record settings =
  PROJECT_ENDPOINT :: string
  ORCHESTRATOR_AGENT_ID :: string

text \<open>
  The top of the script (lines 13-23), followed by everything else. The rest of the
  script is the parameter \<open>page\<close>: it is the only part that reaches the remote service,
  whose state is \<open>r\<close>. A stop in \<open>read_setting\<close> ends the pass before \<open>page\<close> is entered.
\<close>

definition app :: "(string \<Rightarrow> string) \<Rightarrow> (string \<rightharpoonup> string)
                     \<Rightarrow> (settings \<Rightarrow> 'r \<Rightarrow> ui_msg list \<times> control \<times> 'r) \<Rightarrow> 'r
                     \<Rightarrow> ui_msg list \<times> control \<times> 'r" where
  "app strip env page r =
     (case read_setting strip env ''PROJECT_ENDPOINT'' True [] of
        Inl m \<Rightarrow> ([m], Stop, r)
      | Inr ep \<Rightarrow>
          (case read_setting strip env ''ORCHESTRATOR_AGENT_ID'' True [] of
             Inl m \<Rightarrow> ([m], Stop, r)
           | Inr oid \<Rightarrow>
               page \<lparr>PROJECT_ENDPOINT = py_rstrip ''/'' ep, ORCHESTRATOR_AGENT_ID = oid\<rparr> r))"

section \<open>The remote service\<close>

text \<open>
  The agent-hosting service is not part of the program; the model keeps what the program
  reads and writes there. An agent is the JSON object of \<open>GET /assistants/{id}\<close>:
  \<^item> \<open>a_tools\<close>: the \<open>tools\<close> key, \<open>None\<close> when missing or \<open>null\<close>
    (\<open>agent.get("tools", []) or []\<close> reads both as the empty list);
  \<^item> \<open>a_tool_resources\<close>: the \<open>tool_resources\<close> key, inside it the \<open>code_interpreter\<close>
    key, inside it the \<open>file_ids\<close> key (\<open>None\<close> when missing or \<open>null\<close>).
  A tool is a JSON object with a \<open>type\<close> (\<open>None\<close> when missing or \<open>null\<close>) and other keys
  the program never looks at.
\<close>

type_synonym fid = string
type_synonym aid = string

record tool =
  t_type :: "string option"
  t_other :: "(string \<times> string) list"

record agent =
  a_tools :: "tool list option"
  a_tool_resources :: "fid list option jfield jfield"

record file_meta =
  m_filename :: "string jfield"
  m_bytes :: "nat option"

text \<open>
  \<open>r_faults\<close> is the fate of the HTTP calls to come, in the order they are issued: \<open>True\<close>
  is a call that fails (no answer, or a non-2xx status); once the list is used up, calls
  go through. \<open>r_calls\<close> counts the calls issued.
\<close>

record remote =
  r_agents :: "aid \<rightharpoonup> agent"
  r_files :: "fid \<rightharpoonup> file_meta"
  r_faults :: "bool list"
  r_calls :: nat

definition http_call :: "remote \<Rightarrow> bool \<times> remote" where
  "http_call r =
     (case r_faults r of
        [] \<Rightarrow> (True, r\<lparr>r_calls := Suc (r_calls r)\<rparr>)
      | b # bs \<Rightarrow> (\<not> b, r\<lparr>r_faults := bs, r_calls := Suc (r_calls r)\<rparr>))"

text \<open>\<open>get_agent\<close> (lines 67-72): an unknown id is a 404, raised by \<open>raise_for_status\<close>.\<close>

definition get_agent :: "remote \<Rightarrow> aid \<Rightarrow> (exn + agent) \<times> remote" where
  "get_agent r agent_id =
     (let (ok, r') = http_call r in
      if \<not> ok then (Inl RequestError, r')
      else (case r_agents r' agent_id of
              None \<Rightarrow> (Inl RequestError, r')
            | Some a \<Rightarrow> (Inr a, r')))"

text \<open>\<open>files_get_rest\<close> (lines 74-80).\<close>

definition files_get_rest :: "remote \<Rightarrow> fid \<Rightarrow> (exn + file_meta) \<times> remote" where
  "files_get_rest r file_id =
     (let (ok, r') = http_call r in
      if \<not> ok then (Inl RequestError, r')
      else (case r_files r' file_id of
              None \<Rightarrow> (Inl RequestError, r')
            | Some m \<Rightarrow> (Inr m, r')))"

text \<open>
  Line 84:
  \<open>agent.get("tool_resources", {}).get("code_interpreter", {}).get("file_ids", []) or []\<close>.
  A \<open>null\<close> under \<open>tool_resources\<close> or \<open>code_interpreter\<close> makes the next \<open>.get\<close> raise.
\<close>

definition ci_file_ids :: "agent \<Rightarrow> exn + fid list" where
  "ci_file_ids a =
     (case a_tool_resources a of
        Absent \<Rightarrow> Inr []
      | Null \<Rightarrow> Inl AttributeError
      | Val tr \<Rightarrow>
          (case tr of
             Absent \<Rightarrow> Inr []
           | Null \<Rightarrow> Inl AttributeError
           | Val ids \<Rightarrow> (case ids of None \<Rightarrow> Inr [] | Some l \<Rightarrow> Inr l)))"

text \<open>A row of \<open>list_agent_ci_files\<close>: \<open>filename\<close> and \<open>bytes\<close> may be \<open>None\<close>.\<close>

record row =
  file_id :: fid
  filename :: "string option"
  bytes :: "nat option"

definition meta_row :: "fid \<Rightarrow> file_meta \<Rightarrow> row" where
  "meta_row fid meta =
     \<lparr>file_id = fid,
      filename = (case m_filename meta of Absent \<Rightarrow> Some [] | Null \<Rightarrow> None | Val s \<Rightarrow> Some s),
      bytes = m_bytes meta\<rparr>"

definition unavailable_row :: "fid \<Rightarrow> row" where
  "unavailable_row fid = \<lparr>file_id = fid, filename = Some ''(unavailable)'', bytes = None\<rparr>"

text \<open>The loop of lines 86-91, with \<open>rows\<close> as the accumulator it appends to.\<close>

fun resolve_rows :: "remote \<Rightarrow> fid list \<Rightarrow> row list \<Rightarrow> row list \<times> remote" where
  "resolve_rows r [] rows = (rows, r)"
| "resolve_rows r (fid # fids) rows =
     (case files_get_rest r fid of
        (Inr meta, r') \<Rightarrow> resolve_rows r' fids (rows @ [meta_row fid meta])
      | (Inl e, r') \<Rightarrow> resolve_rows r' fids (rows @ [unavailable_row fid]))"

text \<open>\<open>list_agent_ci_files\<close> (lines 82-92).\<close>

definition list_agent_ci_files :: "remote \<Rightarrow> aid \<Rightarrow> (exn + row list) \<times> remote" where
  "list_agent_ci_files r agent_id =
     (case get_agent r agent_id of
        (Inl e, r1) \<Rightarrow> (Inl e, r1)
      | (Inr agent, r1) \<Rightarrow>
          (case ci_file_ids agent of
             Inl e \<Rightarrow> (Inl e, r1)
           | Inr file_ids \<Rightarrow>
               (let (rows, r2) = resolve_rows r1 file_ids [] in (Inr rows, r2))))"

text \<open>
  \<open>set_agent_ci_file_ids\<close> (lines 94-105). The POST carries the tools and a
  \<open>tool_resources\<close> holding only the code-interpreter file ids; the service is taken to
  store what the body carries. The function returns the agent the service answers with.
\<close>

definition ci_tool :: tool where
  "ci_tool = \<lparr>t_type = Some ''code_interpreter'', t_other = []\<rparr>"

definition has_ci_tool :: "tool list \<Rightarrow> bool" where
  "has_ci_tool tools = list_ex (\<lambda>t. t_type t = Some ''code_interpreter'') tools"

text \<open>Line 97: \<open>agent.get("tools", []) or []\<close>.\<close>

definition agent_tools :: "agent \<Rightarrow> tool list" where
  "agent_tools agent = (case a_tools agent of None \<Rightarrow> [] | Some ts \<Rightarrow> ts)"

text \<open>Lines 98-100: the body of the POST.\<close>

definition update_body :: "agent \<Rightarrow> fid list \<Rightarrow> agent" where
  "update_body agent file_ids =
     (let tools = agent_tools agent;
          tools' = (if \<not> has_ci_tool tools then tools @ [ci_tool] else tools)
      in \<lparr>a_tools = Some tools', a_tool_resources = Val (Val (Some file_ids))\<rparr>)"

definition set_agent_ci_file_ids :: "remote \<Rightarrow> aid \<Rightarrow> fid list \<Rightarrow> (exn + agent) \<times> remote" where
  "set_agent_ci_file_ids r agent_id file_ids =
     (case get_agent r agent_id of
        (Inl e, r1) \<Rightarrow> (Inl e, r1)
      | (Inr agent, r1) \<Rightarrow>
          (let body = update_body agent file_ids;
               (ok, r2) = http_call r1
           in if \<not> ok then (Inl RequestError, r2)
              else (case r_agents r2 agent_id of
                      None \<Rightarrow> (Inl RequestError, r2)
                    | Some _ \<Rightarrow> (Inr body, r2\<lparr>r_agents := (r_agents r2)(agent_id \<mapsto> body)\<rparr>))))"

text \<open>
  \<open>agents.files.delete\<close> and \<open>agents.files.upload\<close> of the SDK. Deleting an unknown file
  raises. The id of an uploaded file is chosen by the service: it is the argument
  \<open>new_id\<close>. The file is stored under the name given by the \<open>filename\<close> keyword.
\<close>

definition files_delete :: "remote \<Rightarrow> fid \<Rightarrow> (exn + unit) \<times> remote" where
  "files_delete r fid =
     (let (ok, r') = http_call r in
      if \<not> ok then (Inl RequestError, r')
      else (case r_files r' fid of
              None \<Rightarrow> (Inl RequestError, r')
            | Some _ \<Rightarrow> (Inr (), r'\<lparr>r_files := (r_files r')(fid := None)\<rparr>)))"

definition files_upload :: "remote \<Rightarrow> fid \<Rightarrow> string \<Rightarrow> string \<Rightarrow> (exn + fid) \<times> remote" where
  "files_upload r new_id name data =
     (let (ok, r') = http_call r in
      if \<not> ok then (Inl RequestError, r')
      else (Inr new_id,
            r'\<lparr>r_files := (r_files r')(new_id \<mapsto> \<lparr>m_filename = Val name, m_bytes = Some (length data)\<rparr>)\<rparr>))"

text \<open>
  Lines 166-182: the content of the uploaded file is written to a file called \<open>name\<close> in
  a fresh temporary directory, and that file is uploaded. \<open>tmp_write name data\<close> is the
  exception that making the directory and writing the file raises, if any (a name too
  long for the file system, or one holding a \<open>/\<close>, makes \<open>open\<close> raise): lines 168-171
  are inside no \<open>try\<close>, so the exception ends the handler before anything is sent to the
  service. The \<open>finally\<close> of lines 177-182 removes the file and swallows what the removal
  raises; an exception of the upload itself passes through it.
\<close>

definition upload_file ::
  "(string \<Rightarrow> string \<Rightarrow> exn option) \<Rightarrow> remote \<Rightarrow> fid \<Rightarrow> string \<Rightarrow> string \<Rightarrow> (exn + fid) \<times> remote" where
  "upload_file tmp_write r new_id name data =
     (case tmp_write name data of
        Some e \<Rightarrow> (Inl e, r)
      | None \<Rightarrow> files_upload r new_id name data)"

section \<open>Session state and the file handlers\<close>

record session =
  ss_thread_id :: "string option"
  ss_file_id :: "string option"
  ss_agent_list :: "(string \<times> string) list"
  ss_logs :: "string list"

text \<open>\<open>log\<close> (lines 44-45).\<close>

definition log :: "session \<Rightarrow> string \<Rightarrow> session" where
  "log st msg = st\<lparr>ss_logs := ss_logs st @ [msg]\<rparr>"

text \<open>
  What a handler leaves behind: the service, the session, what it showed, and how the
  pass goes on. Each \<open>st.rerun()\<close> of the file handlers comes right after
  \<open>st.cache_data.clear()\<close>, which only drops the cached agent list.
\<close>

record outcome =
  o_remote :: remote
  o_session :: session
  o_ui :: "ui_msg list"
  o_ctl :: control

text \<open>
  The body of the per-file Delete button (lines 145-155), for the row \<open>f\<close> of the
  listing \<open>ci_files\<close> of the chosen agent.
\<close>

definition delete_button :: "remote \<Rightarrow> session \<Rightarrow> aid \<Rightarrow> row list \<Rightarrow> row \<Rightarrow> outcome" where
  "delete_button r st chosen_agent_id ci_files f =
     (let remaining = map file_id (filter (\<lambda>x. file_id x \<noteq> file_id f) ci_files) in
      case set_agent_ci_file_ids r chosen_agent_id remaining of
        (Inl e, r1) \<Rightarrow>
          \<lparr>o_remote = r1, o_session = st,
           o_ui = [St_error_exc ''Delete failed: '' e], o_ctl = Continue\<rparr>
      | (Inr _, r1) \<Rightarrow>
          (let (_, r2) = files_delete r1 (file_id f) in
           \<lparr>o_remote = r2, o_session = st,
            o_ui = [St_success (''Deleted '' @ py_str (filename f) @ '' from CI and project.'')],
            o_ctl = Rerun\<rparr>))"

text \<open>
  The dict comprehension of line 188: the rows by lower-cased filename
  (\<open>(e["filename"] or "").lower()\<close>), a later row replacing an earlier one with the same
  key. \<open>lower\<close> is \<open>str.lower()\<close>.
\<close>

definition name_key :: "(string \<Rightarrow> string) \<Rightarrow> row \<Rightarrow> string" where
  "name_key lower e = lower (or_empty (filename e))"

definition existing_by_name :: "(string \<Rightarrow> string) \<Rightarrow> row list \<Rightarrow> (string \<rightharpoonup> row)" where
  "existing_by_name lower ci_files =
     foldl (\<lambda>m e. m(name_key lower e \<mapsto> e)) Map.empty ci_files"

definition quoted :: "string \<Rightarrow> string" where
  "quoted s = [CHR 0x27] @ s @ [CHR 0x27]"

text \<open>
  Lines 185-208: persist the uploaded file \<open>new_file_id\<close> (the value of
  \<open>st.session_state["file_id"]\<close>, set at line 175) in the code interpreter of the
  chosen agent, overwriting by filename.
\<close>

definition persist_in_ci ::
  "(string \<Rightarrow> string) \<Rightarrow> remote \<Rightarrow> session \<Rightarrow> aid \<Rightarrow> string \<Rightarrow> fid \<Rightarrow> outcome" where
  "persist_in_ci lower r st chosen_agent_id name new_file_id =
     (case list_agent_ci_files r chosen_agent_id of
        (Inl e, r1) \<Rightarrow>
          \<lparr>o_remote = r1, o_session = st,
           o_ui = [St_error_exc ''Persist/overwrite failed: '' e], o_ctl = Continue\<rparr>
      | (Inr ci_files, r1) \<Rightarrow>
          (let existing_ids = map file_id ci_files;
               new_name_lc = lower name
           in case existing_by_name lower ci_files new_name_lc of
                Some e \<Rightarrow>
                  (let old_id = file_id e;
                       new_ids = map (\<lambda>fid. if fid = old_id then new_file_id else fid) existing_ids
                   in case set_agent_ci_file_ids r1 chosen_agent_id new_ids of
                        (Inl ex, r2) \<Rightarrow>
                          \<lparr>o_remote = r2, o_session = st,
                           o_ui = [St_error_exc ''Persist/overwrite failed: '' ex],
                           o_ctl = Continue\<rparr>
                      | (Inr _, r2) \<Rightarrow>
                          (let (_, r3) = files_delete r2 old_id in
                           \<lparr>o_remote = r3,
                            o_session = log st (''Overwritten: '' @ quoted name @ '' old_id='' @ old_id
                                                @ '' -> new_id='' @ new_file_id @ ''.''),
                            o_ui = [St_success (''File '' @ quoted name
                                                @ '' has been overwritten in Code Interpreter.'')],
                            o_ctl = Rerun\<rparr>))
              | None \<Rightarrow>
                  (case set_agent_ci_file_ids r1 chosen_agent_id (existing_ids @ [new_file_id]) of
                     (Inl ex, r2) \<Rightarrow>
                       \<lparr>o_remote = r2, o_session = st,
                        o_ui = [St_error_exc ''Persist/overwrite failed: '' ex],
                        o_ctl = Continue\<rparr>
                   | (Inr _, r2) \<Rightarrow>
                       \<lparr>o_remote = r2,
                        o_session = log st (''Persisted new file to CI: '' @ quoted name
                                            @ '' id='' @ new_file_id @ ''.''),
                        o_ui = [St_success (''File '' @ quoted name
                                            @ '' attached to Code Interpreter.'')],
                        o_ctl = Rerun\<rparr>)))"

text \<open>
  The "Upload and persist" button (lines 164-208) for an uploaded file \<open>name\<close> with
  content \<open>data\<close>. What the temporary copy or the upload raises is caught by nobody (the
  \<open>try\<close> of line 172 has only a \<open>finally\<close>).
\<close>

definition upload_and_persist ::
  "(string \<Rightarrow> string) \<Rightarrow> (string \<Rightarrow> string \<Rightarrow> exn option) \<Rightarrow> remote \<Rightarrow> session \<Rightarrow> aid
     \<Rightarrow> string \<Rightarrow> string \<Rightarrow> fid \<Rightarrow> outcome" where
  "upload_and_persist lower tmp_write r st chosen_agent_id name data new_id =
     (case upload_file tmp_write r new_id name data of
        (Inl e, r0) \<Rightarrow> \<lparr>o_remote = r0, o_session = st, o_ui = [], o_ctl = Uncaught e\<rparr>
      | (Inr new_file_id, r0) \<Rightarrow>
          persist_in_ci lower r0
            (log (st\<lparr>ss_file_id := Some new_file_id\<rparr>)
                 (''Uploaded new file_id='' @ new_file_id @ '' for '' @ quoted name @ ''.''))
            chosen_agent_id name new_file_id)"

section \<open>The Run button\<close>

text \<open>
  A message of the thread as the SDK hands it over: its role, the run that produced it,
  and \<open>text_messages\<close>, its text parts. A text part has a \<open>text\<close> (or none), which has
  a \<open>value\<close> (or none).
\<close>

record text_details =
  td_value :: "string option"

record text_content =
  tc_text :: "text_details option"

record message =
  m_role :: string
  m_run_id :: "string option"
  m_text_messages :: "text_content list"

text \<open>
  The status of a run as the SDK hands it over (\<open>run.status\<close>). The program does two
  things with it: it tests whether it is one of three strings (line 237), and it formats
  it into an f-string (line 241). The SDK gives a member of its string enumeration
  \<open>RunStatus\<close> for a status it knows and a plain string for any other. \<open>st_value\<close> is the
  string the status compares equal to; \<open>st_shown\<close> is what an f-string makes of it: for a
  plain string the string itself, for a member of the enumeration what the running Python
  prints for it (the value \<open>completed\<close> before Python 3.11, the member's name
  \<open>RunStatus.COMPLETED\<close> from 3.11 on).
\<close>

record run_status =
  st_value :: string
  st_shown :: string

text \<open>
  The thread, message and run calls of the SDK, as the answers the service gives:
  \<^item> \<open>threads_create\<close>: the id of the new thread;
  \<^item> \<open>messages_create thread content attachments\<close>: \<open>Some e\<close> when the call raises;
  \<^item> \<open>runs_create thread agent\<close>: the id and the first status of the new run;
  \<^item> \<open>runs_get thread run k\<close>: the status that the \<open>k\<close>-th poll of the run fetches
    (\<open>k = 0\<close> is the first poll);
  \<^item> \<open>messages_list thread run\<close>: the items that
    \<open>agents.messages.list(thread_id, run_id, order="asc", limit=100)\<close> (line 244) hands
    over, the pager of the SDK walking through all pages. Which messages the service puts
    there is the service's business: nothing is assumed about it.
\<close>

record run_service =
  threads_create :: "exn + string"
  messages_create :: "string \<Rightarrow> string \<Rightarrow> fid list \<Rightarrow> exn option"
  runs_create :: "string \<Rightarrow> string \<Rightarrow> exn + (string \<times> run_status)"
  runs_get :: "string \<Rightarrow> string \<Rightarrow> nat \<Rightarrow> exn + run_status"
  messages_list :: "string \<Rightarrow> string \<Rightarrow> exn + message list"

text \<open>The tuple of line 237.\<close>

definition polling_statuses :: "string list" where
  "polling_statuses = [''queued'', ''in_progress'', ''requires_action'']"

text \<open>
  The loop of lines 237-240. \<open>get k\<close> is the answer to the \<open>k\<close>-th \<open>runs.get\<close>; the state
  is the number of polls made, the time slept and the last status. The loop has no bound:
  not returning is the value \<open>None\<close>. A poll that raises ends the loop with the exception.
\<close>

partial_function (option) poll_run ::
  "(nat \<Rightarrow> exn + run_status) \<Rightarrow> nat \<Rightarrow> nat \<Rightarrow> run_status
     \<Rightarrow> ((exn + run_status) \<times> nat \<times> nat) option" where
  "poll_run get k slept status =
     (if st_value status \<in> set polling_statuses
      then (case get k of
              Inl e \<Rightarrow> Some (Inl e, Suc k, slept + 2)
            | Inr s \<Rightarrow> poll_run get (Suc k) (slept + 2) s)
      else Some (Inr status, k, slept))"

text \<open>The loops of lines 246-252, with \<open>chunks\<close> as the accumulator they append to.\<close>

fun text_chunks :: "text_content list \<Rightarrow> string list \<Rightarrow> string list" where
  "text_chunks [] chunks = chunks"
| "text_chunks (tmc # tmcs) chunks =
     (case tc_text tmc of
        None \<Rightarrow> text_chunks tmcs chunks
      | Some t \<Rightarrow>
          (case td_value t of
             None \<Rightarrow> text_chunks tmcs chunks
           | Some v \<Rightarrow> if v \<noteq> [] then text_chunks tmcs (chunks @ [v])
                      else text_chunks tmcs chunks))"

fun message_chunks :: "message list \<Rightarrow> string list \<Rightarrow> string list" where
  "message_chunks [] chunks = chunks"
| "message_chunks (m # ms) chunks =
     (if m_role m \<noteq> ''assistant'' then message_chunks ms chunks
      else if m_text_messages m \<noteq> [] then message_chunks ms (text_chunks (m_text_messages m) chunks)
      else message_chunks ms chunks)"

text \<open>Lines 245-257, for the items \<open>pager\<close> of the listing.\<close>

definition show_output :: "message list \<Rightarrow> ui_msg list" where
  "show_output pager =
     (let chunks = message_chunks pager [] in
      if chunks \<noteq> []
      then [St_markdown ''**Assistant:**'', St_write (py_join [CHR 0x0A, CHR 0x0A] chunks)]
      else [St_warning ''No assistant response generated.''])"

text \<open>
  What the Run button leaves behind; \<open>ro_polls\<close> and \<open>ro_slept\<close> are the number of
  \<open>runs.get\<close> calls and the time spent in \<open>time.sleep\<close>. No exception is caught in this
  handler.
\<close>

record run_outcome =
  ro_session :: session
  ro_ui :: "ui_msg list"
  ro_ctl :: control
  ro_polls :: nat
  ro_slept :: nat

text \<open>Lines 241-257, once the loop has ended with \<open>status\<close>.\<close>

definition finish_run ::
  "run_service \<Rightarrow> session \<Rightarrow> string \<Rightarrow> string \<Rightarrow> run_status \<Rightarrow> nat \<Rightarrow> nat \<Rightarrow> run_outcome" where
  "finish_run svc st thread_id run_id status k slept =
     (let ui = [St_info (''Run status: '' @ st_shown status)] in
      case messages_list svc thread_id run_id of
        Inl e \<Rightarrow> \<lparr>ro_session = st, ro_ui = ui, ro_ctl = Uncaught e, ro_polls = k, ro_slept = slept\<rparr>
      | Inr pager \<Rightarrow>
          \<lparr>ro_session = st, ro_ui = ui @ show_output pager, ro_ctl = Continue,
           ro_polls = k, ro_slept = slept\<rparr>)"

text \<open>Lines 224-257, on the thread \<open>thread_id\<close>.\<close>

definition run_on_thread :: "run_service \<Rightarrow> settings \<Rightarrow> session \<Rightarrow> string \<Rightarrow> string \<Rightarrow> run_outcome option" where
  "run_on_thread svc cfg st thread_id question =
     (let (attachments, st1) =
            (case ss_file_id st of
               None \<Rightarrow> ([], st)
             | Some f \<Rightarrow>
                 if f \<noteq> []
                 then ([f], log st ''File attached to Code Interpreter for this run (message-level).'')
                 else ([], st));
          user_prompt = (if question \<noteq> [] then question else ''Please analyze the uploaded file.'')
      in case messages_create svc thread_id user_prompt attachments of
           Some e \<Rightarrow>
             Some \<lparr>ro_session = st1, ro_ui = [], ro_ctl = Uncaught e, ro_polls = 0, ro_slept = 0\<rparr>
         | None \<Rightarrow>
             (case runs_create svc thread_id (ORCHESTRATOR_AGENT_ID cfg) of
                Inl e \<Rightarrow>
                  Some \<lparr>ro_session = st1, ro_ui = [], ro_ctl = Uncaught e, ro_polls = 0, ro_slept = 0\<rparr>
              | Inr (run_id, status0) \<Rightarrow>
                  (case poll_run (runs_get svc thread_id run_id) 0 0 status0 of
                     None \<Rightarrow> None
                   | Some (Inl e, k, slept) \<Rightarrow>
                       Some \<lparr>ro_session = st1, ro_ui = [], ro_ctl = Uncaught e,
                             ro_polls = k, ro_slept = slept\<rparr>
                   | Some (Inr status, k, slept) \<Rightarrow>
                       Some (finish_run svc st1 thread_id run_id status k slept))))"

text \<open>The Run button (lines 214-257) with the text \<open>question\<close> of the Ask box.\<close>

definition run_button :: "run_service \<Rightarrow> settings \<Rightarrow> session \<Rightarrow> string \<Rightarrow> run_outcome option" where
  "run_button svc cfg st question =
     (case ss_thread_id st of
        None \<Rightarrow>
          (case threads_create svc of
             Inl e \<Rightarrow>
               Some \<lparr>ro_session = st, ro_ui = [], ro_ctl = Uncaught e, ro_polls = 0, ro_slept = 0\<rparr>
           | Inr tid \<Rightarrow>
               run_on_thread svc cfg
                 (log (st\<lparr>ss_thread_id := Some tid\<rparr>) (''Thread created: '' @ tid @ ''.''))
                 tid question)
      | Some tid \<Rightarrow> run_on_thread svc cfg st tid question)"

section \<open>Reading the service back\<close>

text \<open>
  The tool-resources id list of an agent as line 84 reads it, and whether the agent has
  the code-interpreter tool, both on the state of the service.
\<close>

definition stored_ci_file_ids :: "remote \<Rightarrow> aid \<Rightarrow> fid list option" where
  "stored_ci_file_ids r agent_id =
     (case r_agents r agent_id of
        None \<Rightarrow> None
      | Some a \<Rightarrow> (case ci_file_ids a of Inl _ \<Rightarrow> None | Inr ids \<Rightarrow> Some ids))"

definition agent_has_ci :: "remote \<Rightarrow> aid \<Rightarrow> bool" where
  "agent_has_ci r agent_id =
     (case r_agents r agent_id of
        None \<Rightarrow> False
      | Some a \<Rightarrow> (case a_tools a of None \<Rightarrow> False | Some ts \<Rightarrow> has_ci_tool ts))"

text \<open>
  \<open>call_fails faults i\<close>: the \<open>i\<close>-th of the calls to come fails. \<open>listed_row\<close> is the row
  that lines 87-91 make of a file id, given whether the call failed and what the service
  holds under the id.
\<close>

definition call_fails :: "bool list \<Rightarrow> nat \<Rightarrow> bool" where
  "call_fails faults i = (i < length faults \<and> faults ! i)"

definition listed_row :: "bool \<Rightarrow> file_meta option \<Rightarrow> fid \<Rightarrow> row" where
  "listed_row failed meta fid =
     (case meta of
        None \<Rightarrow> unavailable_row fid
      | Some m \<Rightarrow> if failed then unavailable_row fid else meta_row fid m)"

text \<open>
  The filename key under which the service holds a file: what line 188 makes of the
  file's metadata when the fetch of the metadata goes through.
\<close>

definition held_key :: "(string \<Rightarrow> string) \<Rightarrow> remote \<Rightarrow> fid \<Rightarrow> string option" where
  "held_key lower r fid =
     (case r_files r fid of
        None \<Rightarrow> None
      | Some meta \<Rightarrow> Some (name_key lower (meta_row fid meta)))"

text \<open>
  The value that \<open>read_setting\<close> tests for a required setting without default:
  \<open>os.getenv(key, "").strip().strip('"').strip("'")\<close>.
\<close>

definition trimmed_setting :: "(string \<Rightarrow> string) \<Rightarrow> (string \<rightharpoonup> string) \<Rightarrow> string \<Rightarrow> string" where
  "trimmed_setting strip env key =
     py_strip [CHR 0x27] (py_strip [CHR 0x22] (strip
       (case env key of None \<Rightarrow> [] | Some v \<Rightarrow> v)))"

text \<open>
  The output of a run as the specification words it, to be compared with \<open>show_output\<close>.
  A text segment of a message is the value of one of its text parts that has a text
  with a non-empty value. In \<open>spec_run_output\<close> only assistant-role messages whose run id
  is the given run contribute; their segments are taken in the order of the listing and
  joined by a blank line; with no segment at all, the output is the explicit no-response
  warning. \<open>spec_page_output\<close> is the same without the test of the run id: every
  assistant-role message of the page contributes.
\<close>

definition spec_text_segments :: "message \<Rightarrow> string list" where
  "spec_text_segments m =
     filter (\<lambda>v. v \<noteq> [])
       (List.map_filter (\<lambda>tmc. Option.bind (tc_text tmc) td_value) (m_text_messages m))"

definition spec_run_output :: "message list \<Rightarrow> string \<Rightarrow> ui_msg list" where
  "spec_run_output all_messages run_id =
     (let segments = concat (map spec_text_segments
                       (filter (\<lambda>m. m_run_id m = Some run_id \<and> m_role m = ''assistant'')
                          all_messages))
      in if segments = [] then [St_warning ''No assistant response generated.'']
         else [St_markdown ''**Assistant:**'', St_write (py_join [CHR 0x0A, CHR 0x0A] segments)])"

definition spec_page_output :: "message list \<Rightarrow> ui_msg list" where
  "spec_page_output page =
     (let segments = concat (map spec_text_segments
                       (filter (\<lambda>m. m_role m = ''assistant'') page))
      in if segments = [] then [St_warning ''No assistant response generated.'']
         else [St_markdown ''**Assistant:**'', St_write (py_join [CHR 0x0A, CHR 0x0A] segments)])"

section \<open>Example states\<close>

text \<open>
  \<open>str.lower()\<close> and \<open>str.strip()\<close> on ASCII strings, for the examples: \<open>ascii_lower\<close> maps
  \<open>A..Z\<close> to \<open>a..z\<close>, and \<open>ascii_strip\<close> removes the ASCII whitespace of Python (space,
  \<open>\t \n \v \f \r\<close> and the separators \<open>0x1C..0x1F\<close>) at both ends. Every string of the
  examples is ASCII. \<open>no_tmp_error\<close> is a file system on which the temporary copy of an
  upload never fails.
\<close>

definition ascii_lower_char :: "char \<Rightarrow> char" where
  "ascii_lower_char c =
     (let n = (of_char c :: nat) in if 65 \<le> n \<and> n \<le> 90 then char_of (n + 32) else c)"

definition ascii_lower :: "string \<Rightarrow> string" where
  "ascii_lower s = map ascii_lower_char s"

definition ascii_whitespace :: "char list" where
  "ascii_whitespace =
     [CHR 0x20, CHR 0x09, CHR 0x0A, CHR 0x0B, CHR 0x0C, CHR 0x0D,
      CHR 0x1C, CHR 0x1D, CHR 0x1E, CHR 0x1F]"

definition ascii_strip :: "string \<Rightarrow> string" where
  "ascii_strip s = py_strip ascii_whitespace s"

definition no_tmp_error :: "string \<Rightarrow> string \<Rightarrow> exn option" where
  "no_tmp_error name data = None"

text \<open>
  An agent \<open>A\<close> with one attached file \<open>data.csv\<close> and no code-interpreter tool yet, on a
  service where every call goes through.
\<close>

definition agent0 :: agent where
  "agent0 = \<lparr>a_tools = Some [\<lparr>t_type = Some ''file_search'', t_other = []\<rparr>],
             a_tool_resources = Val (Val (Some [''id1'']))\<rparr>"

definition remote0 :: remote where
  "remote0 = \<lparr>r_agents = [''A'' \<mapsto> agent0],
              r_files = [''id1'' \<mapsto> \<lparr>m_filename = Val ''data.csv'', m_bytes = Some 10\<rparr>],
              r_faults = [], r_calls = 0\<rparr>"

text \<open>The row that the listing of \<open>A\<close> shows.\<close>

definition row1 :: row where
  "row1 = \<lparr>file_id = ''id1'', filename = Some ''data.csv'', bytes = Some 10\<rparr>"

definition session0 :: session where
  "session0 = \<lparr>ss_thread_id = None, ss_file_id = None, ss_agent_list = [], ss_logs = []\<rparr>"

text \<open>The same agent with its file id listed twice.\<close>

definition agent_dup :: agent where
  "agent_dup = \<lparr>a_tools = Some [ci_tool],
                a_tool_resources = Val (Val (Some [''id1'', ''id1'']))\<rparr>"

definition remote_dup :: remote where
  "remote_dup = \<lparr>r_agents = [''A'' \<mapsto> agent_dup],
              r_files = [''id1'' \<mapsto> \<lparr>m_filename = Val ''data.csv'', m_bytes = Some 10\<rparr>],
              r_faults = [], r_calls = 0\<rparr>"



text \<open>An agent with two attached files whose names differ only in case.\<close>

definition agent_two :: agent where
  "agent_two = \<lparr>a_tools = Some [ci_tool],
                a_tool_resources = Val (Val (Some [''id1'', ''id2'']))\<rparr>"

definition remote_two :: remote where
  "remote_two = \<lparr>r_agents = [''A'' \<mapsto> agent_two],
              r_files = [''id1'' \<mapsto> \<lparr>m_filename = Val ''data.csv'', m_bytes = Some 10\<rparr>,
                         ''id2'' \<mapsto> \<lparr>m_filename = Val ''DATA.CSV'', m_bytes = Some 12\<rparr>],
              r_faults = [], r_calls = 0\<rparr>"

text \<open>The service of \<open>remote0\<close>, with the sixth call to come failing.\<close>

definition remote_delete_down :: remote where
  "remote_delete_down = remote0\<lparr>r_faults := [False, False, False, False, False, True]\<rparr>"

text \<open>The service of \<open>remote0\<close>, with the third call to come failing.\<close>

definition remote_fetch_down :: remote where
  "remote_fetch_down = remote0\<lparr>r_faults := [False, False, True]\<rparr>"

text \<open>
  Two environments: one whose endpoint is a blank, a pair of double quotes and a newline,
  one with an endpoint and no agent id.
\<close>

definition env_blank_endpoint :: "string \<rightharpoonup> string" where
  "env_blank_endpoint =
     [''PROJECT_ENDPOINT'' \<mapsto> [CHR 0x20, CHR 0x22, CHR 0x22, CHR 0x0A],
      ''ORCHESTRATOR_AGENT_ID'' \<mapsto> ''asst_1'']"

definition env_no_agent :: "string \<rightharpoonup> string" where
  "env_no_agent = [''PROJECT_ENDPOINT'' \<mapsto> ''https://host/api/projects/p/'']"

text \<open>A rest of the script that fetches the orchestrator agent, one call to the service.\<close>

definition page_fetching_agent :: "settings \<Rightarrow> remote \<Rightarrow> ui_msg list \<times> control \<times> remote" where
  "page_fetching_agent cfg r = ([], Continue, snd (get_agent r (ORCHESTRATOR_AGENT_ID cfg)))"

text \<open>
  A thread with messages of two runs and both roles. \<open>service0\<close> is a service whose run
  goes from \<open>queued\<close> over \<open>in_progress\<close> to \<open>completed\<close>, the statuses being plain
  strings, and whose listing holds the messages of the run asked for. \<open>service_stuck\<close> is
  one whose run stays \<open>queued\<close>; \<open>service_enum\<close> one whose statuses are members of the
  enumeration as Python 3.11 prints them; \<open>service_all_runs\<close> one whose listing holds
  every message of the thread.
\<close>

definition settings0 :: settings where
  "settings0 = \<lparr>PROJECT_ENDPOINT = ''https://host/api/projects/p'',
                 ORCHESTRATOR_AGENT_ID = ''asst_1''\<rparr>"

definition text_part :: "string \<Rightarrow> text_content" where
  "text_part v = \<lparr>tc_text = Some \<lparr>td_value = Some v\<rparr>\<rparr>"

definition thread0 :: "message list" where
  "thread0 =
     [\<lparr>m_role = ''user'', m_run_id = None, m_text_messages = [text_part ''question'']\<rparr>,
      \<lparr>m_role = ''assistant'', m_run_id = Some ''run0'', m_text_messages = [text_part ''old'']\<rparr>,
      \<lparr>m_role = ''assistant'', m_run_id = Some ''run1'',
        m_text_messages = [text_part ''a'', text_part [], \<lparr>tc_text = None\<rparr>,
                           \<lparr>tc_text = Some \<lparr>td_value = None\<rparr>\<rparr>, text_part ''b'']\<rparr>,
      \<lparr>m_role = ''user'', m_run_id = Some ''run1'', m_text_messages = [text_part ''echo'']\<rparr>,
      \<lparr>m_role = ''assistant'', m_run_id = Some ''run1'', m_text_messages = []\<rparr>,
      \<lparr>m_role = ''assistant'', m_run_id = Some ''run1'', m_text_messages = [text_part ''c'']\<rparr>]"

definition plain_status :: "string \<Rightarrow> run_status" where
  "plain_status s = \<lparr>st_value = s, st_shown = s\<rparr>"

definition statuses0 :: "nat \<Rightarrow> run_status" where
  "statuses0 i = plain_status
     (if i = 0 then ''queued'' else if i = 1 then ''in_progress'' else ''completed'')"

definition service0 :: run_service where
  "service0 =
     \<lparr>threads_create = Inr ''t1'',
      messages_create = (\<lambda>thread_id content attachments. None),
      runs_create = (\<lambda>thread_id agent_id. Inr (''run1'', statuses0 0)),
      runs_get = (\<lambda>thread_id run_id k. Inr (statuses0 (Suc k))),
      messages_list = (\<lambda>thread_id run_id. Inr (filter (\<lambda>m. m_run_id m = Some run_id) thread0))\<rparr>"

definition service_stuck :: run_service where
  "service_stuck =
     service0\<lparr>runs_create := (\<lambda>thread_id agent_id. Inr (''run1'', plain_status ''queued'')),
              runs_get := (\<lambda>thread_id run_id k. Inr (plain_status ''queued''))\<rparr>"

definition statuses_enum :: "nat \<Rightarrow> run_status" where
  "statuses_enum i =
     (if i = 0 then \<lparr>st_value = ''queued'', st_shown = ''RunStatus.QUEUED''\<rparr>
      else if i = 1 then \<lparr>st_value = ''in_progress'', st_shown = ''RunStatus.IN_PROGRESS''\<rparr>
      else \<lparr>st_value = ''completed'', st_shown = ''RunStatus.COMPLETED''\<rparr>)"

definition service_enum :: run_service where
  "service_enum =
     service0\<lparr>runs_create := (\<lambda>thread_id agent_id. Inr (''run1'', statuses_enum 0)),
              runs_get := (\<lambda>thread_id run_id k. Inr (statuses_enum (Suc k)))\<rparr>"


section \<open>Properties\<close>

subsection \<open>What each call leaves untouched, and what a success means\<close>

lemma http_call_frame:
  "http_call r = (ok, r') \<Longrightarrow> r_agents r' = r_agents r \<and> r_files r' = r_files r"
  by (auto simp: http_call_def split: list.splits)

lemma get_agent_frame:
  "get_agent r agent_id = (x, r') \<Longrightarrow> r_agents r' = r_agents r \<and> r_files r' = r_files r"
  by (auto simp: get_agent_def Let_def split: prod.splits if_splits option.splits
           dest: http_call_frame)

lemma get_agent_Inr:
  "get_agent r agent_id = (Inr a, r') \<Longrightarrow> r_agents r agent_id = Some a"
  by (auto simp: get_agent_def Let_def split: prod.splits if_splits option.splits
           dest: http_call_frame)

lemma files_get_rest_frame:
  "files_get_rest r fid = (x, r') \<Longrightarrow> r_agents r' = r_agents r \<and> r_files r' = r_files r"
  by (auto simp: files_get_rest_def Let_def split: prod.splits if_splits option.splits
           dest: http_call_frame)

lemma resolve_rows_frame:
  "resolve_rows r ids acc = (rows, r') \<Longrightarrow> r_agents r' = r_agents r \<and> r_files r' = r_files r"
proof (induction ids arbitrary: r acc)
  case Nil
  then show ?case by simp
next
  case (Cons fid ids)
  obtain x r1 where g: "files_get_rest r fid = (x, r1)" by (cases "files_get_rest r fid")
  from Cons.prems g obtain acc' where "resolve_rows r1 ids acc' = (rows, r')"
    by (cases x) auto
  from Cons.IH[OF this] files_get_rest_frame[OF g] show ?case by simp
qed

lemma resolve_rows_ids:
  "map file_id (fst (resolve_rows r ids acc)) = map file_id acc @ ids"
proof (induction ids arbitrary: r acc)
  case Nil
  then show ?case by simp
next
  case (Cons fid ids)
  obtain x r1 where g: "files_get_rest r fid = (x, r1)" by (cases "files_get_rest r fid")
  show ?case using g Cons.IH
    by (cases x) (simp_all add: meta_row_def unavailable_row_def)
qed

lemma list_agent_ci_files_Inr:
  assumes "list_agent_ci_files r agent_id = (Inr rows, r')"
  shows "\<exists>a. r_agents r agent_id = Some a \<and> ci_file_ids a = Inr (map file_id rows)"
    and "r_agents r' = r_agents r" and "r_files r' = r_files r"
proof -
  obtain x r1 where g: "get_agent r agent_id = (x, r1)" by (cases "get_agent r agent_id")
  with assms obtain a where x: "x = Inr a" by (cases x) (auto simp: list_agent_ci_files_def)
  with assms g obtain ids where ids: "ci_file_ids a = Inr ids"
    by (cases "ci_file_ids a") (auto simp: list_agent_ci_files_def)
  with assms g x have rr: "resolve_rows r1 ids [] = (rows, r')"
    by (auto simp: list_agent_ci_files_def split: prod.splits)
  from resolve_rows_ids[of r1 ids "[]"] rr have "map file_id rows = ids" by simp
  with get_agent_Inr[of r agent_id a r1] g x ids
  show "\<exists>a. r_agents r agent_id = Some a \<and> ci_file_ids a = Inr (map file_id rows)" by simp
  from resolve_rows_frame[OF rr] get_agent_frame[OF g]
  show "r_agents r' = r_agents r" and "r_files r' = r_files r" by simp_all
qed

lemma set_agent_ci_file_ids_Inr:
  assumes "set_agent_ci_file_ids r agent_id file_ids = (Inr body, r')"
  shows "\<exists>a. r_agents r agent_id = Some a \<and> body = update_body a file_ids"
    and "r_agents r' = (r_agents r)(agent_id \<mapsto> body)" and "r_files r' = r_files r"
proof -
  obtain x r1 where g: "get_agent r agent_id = (x, r1)" by (cases "get_agent r agent_id")
  with assms obtain a where x: "x = Inr a" by (cases x) (auto simp: set_agent_ci_file_ids_def)
  obtain ok r2 where h: "http_call r1 = (ok, r2)" by (cases "http_call r1")
  from assms g x h have b: "body = update_body a file_ids"
    and r': "r' = r2\<lparr>r_agents := (r_agents r2)(agent_id \<mapsto> body)\<rparr>"
    by (auto simp: set_agent_ci_file_ids_def Let_def split: if_splits option.splits)
  from get_agent_Inr[of r agent_id a r1] g x b
  show "\<exists>a. r_agents r agent_id = Some a \<and> body = update_body a file_ids" by simp
  from r' http_call_frame[OF h] get_agent_frame[OF g]
  show "r_agents r' = (r_agents r)(agent_id \<mapsto> body)" and "r_files r' = r_files r" by simp_all
qed

lemma set_agent_ci_file_ids_Inl:
  assumes "set_agent_ci_file_ids r agent_id file_ids = (Inl e, r')"
  shows "r_agents r' = r_agents r \<and> r_files r' = r_files r"
proof -
  obtain x r1 where g: "get_agent r agent_id = (x, r1)" by (cases "get_agent r agent_id")
  obtain ok r2 where h: "http_call r1 = (ok, r2)" by (cases "http_call r1")
  from assms g h have "r' = r1 \<or> r' = r2"
    by (cases x) (auto simp: set_agent_ci_file_ids_def Let_def split: if_splits option.splits)
  with get_agent_frame[OF g] http_call_frame[OF h] show ?thesis by auto
qed

lemma files_delete_agents:
  "files_delete r fid = (x, r') \<Longrightarrow> r_agents r' = r_agents r"
  by (auto simp: files_delete_def Let_def split: prod.splits if_splits option.splits
           dest: http_call_frame)

lemma ci_file_ids_update_body [simp]: "ci_file_ids (update_body a ids) = Inr ids"
  by (simp add: ci_file_ids_def update_body_def Let_def)

lemma a_tools_update_body:
  "a_tools (update_body a ids) =
     Some (if has_ci_tool (agent_tools a) then agent_tools a else agent_tools a @ [ci_tool])"
  by (simp add: update_body_def Let_def)

lemma has_ci_tool_update_body:
  "\<exists>ts. a_tools (update_body a ids) = Some ts \<and> has_ci_tool ts"
  by (auto simp: update_body_def Let_def has_ci_tool_def ci_tool_def list_ex_iff)


lemma agent_has_ci_after_set:
  assumes "set_agent_ci_file_ids r agent_id file_ids = (Inr body, r')"
  shows "agent_has_ci r' agent_id"
proof -
  from set_agent_ci_file_ids_Inr[OF assms] obtain a where
    "body = update_body a file_ids" "r_agents r' agent_id = Some body" by auto
  with has_ci_tool_update_body[of a file_ids] show ?thesis
    by (auto simp: agent_has_ci_def)
qed

lemma delete_button_Inl:
  "set_agent_ci_file_ids r agent_id
     (map file_id (filter (\<lambda>x. file_id x \<noteq> file_id f) ci_files)) = (Inl e, r1) \<Longrightarrow>
   delete_button r st agent_id ci_files f =
     \<lparr>o_remote = r1, o_session = st,
      o_ui = [St_error_exc ''Delete failed: '' e], o_ctl = Continue\<rparr>"
  unfolding delete_button_def Let_def by simp

lemma delete_button_Inr:
  "set_agent_ci_file_ids r agent_id
     (map file_id (filter (\<lambda>x. file_id x \<noteq> file_id f) ci_files)) = (Inr body, r1) \<Longrightarrow>
   files_delete r1 (file_id f) = (d, r2) \<Longrightarrow>
   delete_button r st agent_id ci_files f =
     \<lparr>o_remote = r2, o_session = st,
      o_ui = [St_success (''Deleted '' @ py_str (filename f) @ '' from CI and project.'')],
      o_ctl = Rerun\<rparr>"
  unfolding delete_button_def Let_def by simp


lemma delete_button_ci_tool:
  "r_agents (o_remote (delete_button r st agent_id ci_files f)) = r_agents r
   \<or> agent_has_ci (o_remote (delete_button r st agent_id ci_files f)) agent_id"
proof -
  obtain x r1 where s: "set_agent_ci_file_ids r agent_id
         (map file_id (filter (\<lambda>x. file_id x \<noteq> file_id f) ci_files)) = (x, r1)"
    by (cases "set_agent_ci_file_ids r agent_id
         (map file_id (filter (\<lambda>x. file_id x \<noteq> file_id f) ci_files))")
  obtain d r2 where d: "files_delete r1 (file_id f) = (d, r2)"
    by (cases "files_delete r1 (file_id f)")
  show ?thesis
  proof (cases x)
    case (Inl e)
    from s Inl have s': "set_agent_ci_file_ids r agent_id
         (map file_id (filter (\<lambda>x. file_id x \<noteq> file_id f) ci_files)) = (Inl e, r1)" by simp
    from set_agent_ci_file_ids_Inl[OF s'] delete_button_Inl[OF s', of st]
    show ?thesis by simp
  next
    case (Inr body)
    from s Inr have s': "set_agent_ci_file_ids r agent_id
         (map file_id (filter (\<lambda>x. file_id x \<noteq> file_id f) ci_files)) = (Inr body, r1)" by simp
    from agent_has_ci_after_set[OF s'] files_delete_agents[OF d] delete_button_Inr[OF s' d, of st]
    show ?thesis by (simp add: agent_has_ci_def)
  qed
qed

lemma delete_button_Rerun:
  assumes "o_ctl (delete_button r st agent_id ci_files f) = Rerun"
  shows "\<exists>body r1 d. set_agent_ci_file_ids r agent_id
            (map file_id (filter (\<lambda>x. file_id x \<noteq> file_id f) ci_files)) = (Inr body, r1)
          \<and> files_delete r1 (file_id f) = (d, o_remote (delete_button r st agent_id ci_files f))"
proof -
  obtain x r1 where s: "set_agent_ci_file_ids r agent_id
         (map file_id (filter (\<lambda>x. file_id x \<noteq> file_id f) ci_files)) = (x, r1)"
    by (cases "set_agent_ci_file_ids r agent_id
         (map file_id (filter (\<lambda>x. file_id x \<noteq> file_id f) ci_files))")
  obtain d r2 where d: "files_delete r1 (file_id f) = (d, r2)"
    by (cases "files_delete r1 (file_id f)")
  show ?thesis
  proof (cases x)
    case (Inl e)
    from s Inl have s': "set_agent_ci_file_ids r agent_id
         (map file_id (filter (\<lambda>x. file_id x \<noteq> file_id f) ci_files)) = (Inl e, r1)" by simp
    from delete_button_Inl[OF s', of st] assms show ?thesis by simp
  next
    case (Inr body)
    from s Inr have s': "set_agent_ci_file_ids r agent_id
         (map file_id (filter (\<lambda>x. file_id x \<noteq> file_id f) ci_files)) = (Inr body, r1)" by simp
    from delete_button_Inr[OF s' d, of st] s' d show ?thesis by simp
  qed
qed


lemma persist_list_failed:
  "list_agent_ci_files r agent_id = (Inl e, r1) \<Longrightarrow>
   persist_in_ci lower r st agent_id name new_id =
     \<lparr>o_remote = r1, o_session = st,
      o_ui = [St_error_exc ''Persist/overwrite failed: '' e], o_ctl = Continue\<rparr>"
  unfolding persist_in_ci_def by simp

lemma persist_overwrite_failed:
  "list_agent_ci_files r agent_id = (Inr ci_files, r1) \<Longrightarrow>
   existing_by_name lower ci_files (lower name) = Some e \<Longrightarrow>
   set_agent_ci_file_ids r1 agent_id
     (map (\<lambda>fid. if fid = file_id e then new_id else fid) (map file_id ci_files)) = (Inl ex, r2) \<Longrightarrow>
   persist_in_ci lower r st agent_id name new_id =
     \<lparr>o_remote = r2, o_session = st,
      o_ui = [St_error_exc ''Persist/overwrite failed: '' ex], o_ctl = Continue\<rparr>"
  unfolding persist_in_ci_def Let_def by simp

lemma persist_overwrite_ok:
  "list_agent_ci_files r agent_id = (Inr ci_files, r1) \<Longrightarrow>
   existing_by_name lower ci_files (lower name) = Some e \<Longrightarrow>
   set_agent_ci_file_ids r1 agent_id
     (map (\<lambda>fid. if fid = file_id e then new_id else fid) (map file_id ci_files)) = (Inr body, r2) \<Longrightarrow>
   files_delete r2 (file_id e) = (d, r3) \<Longrightarrow>
   persist_in_ci lower r st agent_id name new_id =
     \<lparr>o_remote = r3,
      o_session = log st (''Overwritten: '' @ quoted name @ '' old_id='' @ file_id e
                          @ '' -> new_id='' @ new_id @ ''.''),
      o_ui = [St_success (''File '' @ quoted name @ '' has been overwritten in Code Interpreter.'')],
      o_ctl = Rerun\<rparr>"
  unfolding persist_in_ci_def Let_def by simp

lemma persist_append_failed:
  "list_agent_ci_files r agent_id = (Inr ci_files, r1) \<Longrightarrow>
   existing_by_name lower ci_files (lower name) = None \<Longrightarrow>
   set_agent_ci_file_ids r1 agent_id (map file_id ci_files @ [new_id]) = (Inl ex, r2) \<Longrightarrow>
   persist_in_ci lower r st agent_id name new_id =
     \<lparr>o_remote = r2, o_session = st,
      o_ui = [St_error_exc ''Persist/overwrite failed: '' ex], o_ctl = Continue\<rparr>"
  unfolding persist_in_ci_def Let_def by simp

lemma persist_append_ok:
  "list_agent_ci_files r agent_id = (Inr ci_files, r1) \<Longrightarrow>
   existing_by_name lower ci_files (lower name) = None \<Longrightarrow>
   set_agent_ci_file_ids r1 agent_id (map file_id ci_files @ [new_id]) = (Inr body, r2) \<Longrightarrow>
   persist_in_ci lower r st agent_id name new_id =
     \<lparr>o_remote = r2,
      o_session = log st (''Persisted new file to CI: '' @ quoted name @ '' id='' @ new_id @ ''.''),
      o_ui = [St_success (''File '' @ quoted name @ '' attached to Code Interpreter.'')],
      o_ctl = Rerun\<rparr>"
  unfolding persist_in_ci_def Let_def by simp

text \<open>The five ways through \<open>persist_in_ci\<close>.\<close>

lemma persist_in_ci_paths:
  "(\<exists>e r1. list_agent_ci_files r agent_id = (Inl e, r1))
   \<or> (\<exists>ci_files r1 e ex r2.
         list_agent_ci_files r agent_id = (Inr ci_files, r1)
         \<and> existing_by_name lower ci_files (lower name) = Some e
         \<and> set_agent_ci_file_ids r1 agent_id
              (map (\<lambda>fid. if fid = file_id e then new_id else fid) (map file_id ci_files)) = (Inl ex, r2))
   \<or> (\<exists>ci_files r1 e body r2 d r3.
         list_agent_ci_files r agent_id = (Inr ci_files, r1)
         \<and> existing_by_name lower ci_files (lower name) = Some e
         \<and> set_agent_ci_file_ids r1 agent_id
              (map (\<lambda>fid. if fid = file_id e then new_id else fid) (map file_id ci_files)) = (Inr body, r2)
         \<and> files_delete r2 (file_id e) = (d, r3))
   \<or> (\<exists>ci_files r1 ex r2.
         list_agent_ci_files r agent_id = (Inr ci_files, r1)
         \<and> existing_by_name lower ci_files (lower name) = None
         \<and> set_agent_ci_file_ids r1 agent_id (map file_id ci_files @ [new_id]) = (Inl ex, r2))
   \<or> (\<exists>ci_files r1 body r2.
         list_agent_ci_files r agent_id = (Inr ci_files, r1)
         \<and> existing_by_name lower ci_files (lower name) = None
         \<and> set_agent_ci_file_ids r1 agent_id (map file_id ci_files @ [new_id]) = (Inr body, r2))"
proof -
  obtain x r1 where l: "list_agent_ci_files r agent_id = (x, r1)"
    by (cases "list_agent_ci_files r agent_id")
  show ?thesis
  proof (cases x)
    case (Inl e)
    with l show ?thesis by simp
  next
    case (Inr ci_files)
    show ?thesis
    proof (cases "existing_by_name lower ci_files (lower name)")
      case None
      obtain y r2 where s: "set_agent_ci_file_ids r1 agent_id (map file_id ci_files @ [new_id]) = (y, r2)"
        by (cases "set_agent_ci_file_ids r1 agent_id (map file_id ci_files @ [new_id])")
      from l Inr None s show ?thesis by (cases y) simp_all
    next
      case (Some e)
      obtain y r2 where s: "set_agent_ci_file_ids r1 agent_id
              (map (\<lambda>fid. if fid = file_id e then new_id else fid) (map file_id ci_files)) = (y, r2)"
        by (cases "set_agent_ci_file_ids r1 agent_id
              (map (\<lambda>fid. if fid = file_id e then new_id else fid) (map file_id ci_files))")
      obtain d r3 where d: "files_delete r2 (file_id e) = (d, r3)"
        by (cases "files_delete r2 (file_id e)")
      from l Inr Some s d show ?thesis by (cases y) simp_all
    qed
  qed
qed

lemma upload_file_frame:
  "upload_file tmp_write r new_id name data = (x, r') \<Longrightarrow> r_agents r' = r_agents r"
  by (auto simp: upload_file_def files_upload_def Let_def
           split: option.splits prod.splits if_splits dest: http_call_frame)

lemma list_agent_ci_files_frame:
  assumes "list_agent_ci_files r agent_id = (x, r')"
  shows "r_agents r' = r_agents r \<and> r_files r' = r_files r"
proof -
  obtain y r1 where g: "get_agent r agent_id = (y, r1)" by (cases "get_agent r agent_id")
  show ?thesis
  proof (cases y)
    case (Inl e)
    with assms g have "r' = r1" by (simp add: list_agent_ci_files_def)
    with get_agent_frame[OF g] show ?thesis by simp
  next
    case (Inr a)
    show ?thesis
    proof (cases "ci_file_ids a")
      case (Inl e)
      with assms g Inr have "r' = r1" by (simp add: list_agent_ci_files_def)
      with get_agent_frame[OF g] show ?thesis by simp
    next
      case ids: (Inr ids)
      obtain rows r2 where rr: "resolve_rows r1 ids [] = (rows, r2)"
        by (cases "resolve_rows r1 ids []")
      with assms g Inr ids have "r' = r2" by (simp add: list_agent_ci_files_def)
      with resolve_rows_frame[OF rr] get_agent_frame[OF g] show ?thesis by simp
    qed
  qed
qed

lemma persist_in_ci_cases [case_names list_failed overwrite_failed overwritten append_failed appended]:
  assumes "\<And>e r1. list_agent_ci_files r agent_id = (Inl e, r1) \<Longrightarrow> P"
    and "\<And>ci_files r1 e ex r2.
         list_agent_ci_files r agent_id = (Inr ci_files, r1) \<Longrightarrow>
         existing_by_name lower ci_files (lower name) = Some e \<Longrightarrow>
         set_agent_ci_file_ids r1 agent_id
              (map (\<lambda>fid. if fid = file_id e then new_id else fid) (map file_id ci_files)) = (Inl ex, r2)
         \<Longrightarrow> P"
    and "\<And>ci_files r1 e body r2 d r3.
         list_agent_ci_files r agent_id = (Inr ci_files, r1) \<Longrightarrow>
         existing_by_name lower ci_files (lower name) = Some e \<Longrightarrow>
         set_agent_ci_file_ids r1 agent_id
              (map (\<lambda>fid. if fid = file_id e then new_id else fid) (map file_id ci_files)) = (Inr body, r2) \<Longrightarrow>
         files_delete r2 (file_id e) = (d, r3) \<Longrightarrow> P"
    and "\<And>ci_files r1 ex r2.
         list_agent_ci_files r agent_id = (Inr ci_files, r1) \<Longrightarrow>
         existing_by_name lower ci_files (lower name) = None \<Longrightarrow>
         set_agent_ci_file_ids r1 agent_id (map file_id ci_files @ [new_id]) = (Inl ex, r2) \<Longrightarrow> P"
    and "\<And>ci_files r1 body r2.
         list_agent_ci_files r agent_id = (Inr ci_files, r1) \<Longrightarrow>
         existing_by_name lower ci_files (lower name) = None \<Longrightarrow>
         set_agent_ci_file_ids r1 agent_id (map file_id ci_files @ [new_id]) = (Inr body, r2) \<Longrightarrow> P"
  shows P
  using persist_in_ci_paths[where r=r and agent_id=agent_id and lower=lower and name=name and new_id=new_id]
  apply (elim disjE exE conjE)
      apply (rule assms(1); assumption)
     apply (rule assms(2); assumption)
    apply (rule assms(3); assumption)
   apply (rule assms(4); assumption)
  apply (rule assms(5); assumption)
  done

lemma persist_in_ci_ci_tool:
  "r_agents (o_remote (persist_in_ci lower r st agent_id name new_id)) = r_agents r
   \<or> agent_has_ci (o_remote (persist_in_ci lower r st agent_id name new_id)) agent_id"
proof -
  show ?thesis
  proof (cases rule: persist_in_ci_cases[where lower=lower and r=r and agent_id=agent_id and name=name and new_id=new_id])
    case (list_failed e r1)
    note a = list_failed
    from list_agent_ci_files_frame[OF a] persist_list_failed[OF a, of lower st name new_id] show ?thesis by simp
  next
    case (overwrite_failed ci_files r1 e ex r2)
    note b = overwrite_failed
    from list_agent_ci_files_Inr(2)[OF b(1)] set_agent_ci_file_ids_Inl[OF b(3)]
      persist_overwrite_failed[OF b, of st]
    show ?thesis by simp
  next
    case (overwritten ci_files r1 e body r2 d r3)
    note c = overwritten
    from agent_has_ci_after_set[OF c(3)] files_delete_agents[OF c(4)]
      persist_overwrite_ok[OF c, of st]
    show ?thesis by (simp add: agent_has_ci_def)
  next
    case (append_failed ci_files r1 ex r2)
    note d = append_failed
    from list_agent_ci_files_Inr(2)[OF d(1)] set_agent_ci_file_ids_Inl[OF d(3)]
      persist_append_failed[OF d, of st]
    show ?thesis by simp
  next
    case (appended ci_files r1 body r2)
    note e = appended
    from agent_has_ci_after_set[OF e(3)] persist_append_ok[OF e, of st]
    show ?thesis by simp
  qed
qed

lemma persist_in_ci_Rerun_ci_tool:
  assumes "o_ctl (persist_in_ci lower r st agent_id name new_id) = Rerun"
  shows "agent_has_ci (o_remote (persist_in_ci lower r st agent_id name new_id)) agent_id"
proof (cases rule: persist_in_ci_cases[where lower=lower and r=r and agent_id=agent_id and name=name and new_id=new_id])
  case (list_failed e r1)
  from persist_list_failed[OF list_failed, of lower st name new_id] assms show ?thesis by simp
next
  case (overwrite_failed ci_files r1 e ex r2)
  from persist_overwrite_failed[OF overwrite_failed, of st] assms show ?thesis by simp
next
  case (overwritten ci_files r1 e body r2 d r3)
  from agent_has_ci_after_set[OF overwritten(3)] files_delete_agents[OF overwritten(4)]
    persist_overwrite_ok[OF overwritten, of st]
  show ?thesis by (simp add: agent_has_ci_def)
next
  case (append_failed ci_files r1 ex r2)
  from persist_append_failed[OF append_failed, of st] assms show ?thesis by simp
next
  case (appended ci_files r1 body r2)
  from agent_has_ci_after_set[OF appended(3)] persist_append_ok[OF appended, of st]
  show ?thesis by simp
qed

lemma upload_and_persist_Inl:
  "upload_file tmp_write r new_id name data = (Inl e, r0) \<Longrightarrow>
   upload_and_persist lower tmp_write r st agent_id name data new_id =
     \<lparr>o_remote = r0, o_session = st, o_ui = [], o_ctl = Uncaught e\<rparr>"
  unfolding upload_and_persist_def by simp

lemma upload_and_persist_Inr:
  "upload_file tmp_write r new_id name data = (Inr i, r0) \<Longrightarrow>
   upload_and_persist lower tmp_write r st agent_id name data new_id =
     persist_in_ci lower r0
       (log (st\<lparr>ss_file_id := Some i\<rparr>)
            (''Uploaded new file_id='' @ i @ '' for '' @ quoted name @ ''.''))
       agent_id name i"
  unfolding upload_and_persist_def by simp

lemma upload_file_Inr:
  "upload_file tmp_write r new_id name data = (Inr i, r0) \<Longrightarrow>
     i = new_id \<and> r_agents r0 = r_agents r
     \<and> r_files r0 = (r_files r)(new_id \<mapsto> \<lparr>m_filename = Val name, m_bytes = Some (length data)\<rparr>)"
  by (auto simp: upload_file_def files_upload_def Let_def
           split: option.splits prod.splits if_splits dest: http_call_frame)

lemma upload_and_persist_ci_tool:
  "r_agents (o_remote (upload_and_persist lower tmp_write r st agent_id name data new_id)) = r_agents r
   \<or> agent_has_ci (o_remote (upload_and_persist lower tmp_write r st agent_id name data new_id)) agent_id"
proof -
  obtain x r0 where u: "upload_file tmp_write r new_id name data = (x, r0)"
    by (cases "upload_file tmp_write r new_id name data")
  show ?thesis
  proof (cases x)
    case (Inl e)
    with u upload_and_persist_Inl[of tmp_write r new_id name data e r0 lower st agent_id] upload_file_frame[OF u]
    show ?thesis by simp
  next
    case (Inr i)
    with u have u': "upload_file tmp_write r new_id name data = (Inr i, r0)" by simp
    from persist_in_ci_ci_tool[of lower r0 _ agent_id name i] upload_and_persist_Inr[OF u', of lower st agent_id]
      upload_file_frame[OF u]
    show ?thesis by auto
  qed
qed

lemma upload_and_persist_Rerun_ci_tool:
  assumes "o_ctl (upload_and_persist lower tmp_write r st agent_id name data new_id) = Rerun"
  shows "agent_has_ci (o_remote (upload_and_persist lower tmp_write r st agent_id name data new_id)) agent_id"
proof -
  obtain x r0 where u: "upload_file tmp_write r new_id name data = (x, r0)"
    by (cases "upload_file tmp_write r new_id name data")
  show ?thesis
  proof (cases x)
    case (Inl e)
    with u upload_and_persist_Inl[of tmp_write r new_id name data e r0 lower st agent_id] assms
    show ?thesis by simp
  next
    case (Inr i)
    with u have u': "upload_file tmp_write r new_id name data = (Inr i, r0)" by simp
    from upload_and_persist_Inr[OF u', of lower st agent_id] assms
      persist_in_ci_Rerun_ci_tool[of lower r0 _ agent_id name i]
    show ?thesis by simp
  qed
qed

lemma delete_button_Rerun_ci_tool:
  assumes "o_ctl (delete_button r st agent_id ci_files f) = Rerun"
  shows "agent_has_ci (o_remote (delete_button r st agent_id ci_files f)) agent_id"
proof -
  from delete_button_Rerun[OF assms] obtain body r1 d where
    s: "set_agent_ci_file_ids r agent_id
            (map file_id (filter (\<lambda>x. file_id x \<noteq> file_id f) ci_files)) = (Inr body, r1)"
    and d: "files_delete r1 (file_id f) = (d, o_remote (delete_button r st agent_id ci_files f))"
    by blast
  from agent_has_ci_after_set[OF s] files_delete_agents[OF d]
  show ?thesis by (simp add: agent_has_ci_def)
qed

subsection \<open>The code-interpreter tool stays on the agent\<close>

text \<open>
  C10. Every update of the tool resources goes through \<open>set_agent_ci_file_ids\<close>. When it
  succeeds, the tools it sends are the agent's current tools, with an entry of type
  \<open>code_interpreter\<close> appended if none was there, and the agent stored afterwards has
  the code-interpreter tool. So after a delete or an upload (replacement or append) that
  succeeds the agent has the tool, and a handler that fails either left the agents as
  they were or left the tool on the agent.
\<close>

theorem code_interpreter_tool_kept:
  "(set_agent_ci_file_ids r agent_id file_ids = (Inr body, r') \<longrightarrow>
      (\<exists>agent. r_agents r agent_id = Some agent
         \<and> a_tools body = Some (if has_ci_tool (agent_tools agent) then agent_tools agent
                               else agent_tools agent @ [ci_tool]))
      \<and> r_agents r' agent_id = Some body
      \<and> agent_has_ci r' agent_id)
   \<and> (o_ctl (delete_button r st agent_id ci_files f) = Rerun \<longrightarrow>
        agent_has_ci (o_remote (delete_button r st agent_id ci_files f)) agent_id)
   \<and> (r_agents (o_remote (delete_button r st agent_id ci_files f)) = r_agents r
        \<or> agent_has_ci (o_remote (delete_button r st agent_id ci_files f)) agent_id)
   \<and> (o_ctl (upload_and_persist lower tmp_write r st agent_id name data new_id) = Rerun \<longrightarrow>
        agent_has_ci (o_remote (upload_and_persist lower tmp_write r st agent_id name data new_id)) agent_id)
   \<and> (r_agents (o_remote (upload_and_persist lower tmp_write r st agent_id name data new_id)) = r_agents r
        \<or> agent_has_ci (o_remote (upload_and_persist lower tmp_write r st agent_id name data new_id)) agent_id)"
proof (intro conjI impI)
  assume s: "set_agent_ci_file_ids r agent_id file_ids = (Inr body, r')"
  from set_agent_ci_file_ids_Inr(1)[OF s] a_tools_update_body
  show "\<exists>agent. r_agents r agent_id = Some agent
         \<and> a_tools body = Some (if has_ci_tool (agent_tools agent) then agent_tools agent
                               else agent_tools agent @ [ci_tool])"
    by auto
  from set_agent_ci_file_ids_Inr(2)[OF s] show "r_agents r' agent_id = Some body" by simp
  from agent_has_ci_after_set[OF s] show "agent_has_ci r' agent_id" .
qed (rule delete_button_Rerun_ci_tool delete_button_ci_tool
          upload_and_persist_Rerun_ci_tool upload_and_persist_ci_tool; assumption?)+

lemma set_agent_remote0:
  "set_agent_ci_file_ids remote0 ''A'' [''id1'', ''id2''] =
     (Inr (update_body agent0 [''id1'', ''id2'']),
      remote0\<lparr>r_agents := [''A'' \<mapsto> update_body agent0 [''id1'', ''id2'']], r_calls := 2\<rparr>)"
  by (simp add: set_agent_ci_file_ids_def get_agent_def http_call_def remote0_def Let_def)

theorem code_interpreter_tool_kept_witness:
  "\<not> has_ci_tool (agent_tools agent0)
   \<and> a_tools (update_body agent0 [''id1'', ''id2'']) =
       Some [\<lparr>t_type = Some ''file_search'', t_other = []\<rparr>, ci_tool]
   \<and> agent_has_ci (snd (set_agent_ci_file_ids remote0 ''A'' [''id1'', ''id2''])) ''A''"
proof -
  have a: "r_agents remote0 ''A'' = Some agent0" by (simp add: remote0_def)
  have t: "agent_tools agent0 = [\<lparr>t_type = Some ''file_search'', t_other = []\<rparr>]"
    by (simp add: agent_tools_def agent0_def)
  have n: "\<not> has_ci_tool (agent_tools agent0)" by (simp add: t has_ci_tool_def)
  from code_interpreter_tool_kept[of remote0 "''A''" "[''id1'', ''id2'']"
         "update_body agent0 [''id1'', ''id2'']"
         "remote0\<lparr>r_agents := [''A'' \<mapsto> update_body agent0 [''id1'', ''id2'']], r_calls := 2\<rparr>"]
    set_agent_remote0 a t n
  show ?thesis by simp
qed

subsection \<open>The upload handler\<close>

lemma existing_by_name_snoc:
  "existing_by_name lower (xs @ [x]) = (existing_by_name lower xs)(name_key lower x \<mapsto> x)"
  by (simp add: existing_by_name_def)

lemma existing_by_name_Nil: "existing_by_name lower [] = Map.empty"
  by (simp add: existing_by_name_def)

lemma existing_by_name_last:
  "existing_by_name lower rows k =
     (if filter (\<lambda>e. name_key lower e = k) rows = [] then None
      else Some (last (filter (\<lambda>e. name_key lower e = k) rows)))"
proof (induction rows rule: rev_induct)
  case Nil
  then show ?case by (simp add: existing_by_name_Nil)
next
  case (snoc x xs)
  then show ?case by (simp add: existing_by_name_snoc)
qed

lemma existing_by_name_None:
  "existing_by_name lower rows k = None \<longleftrightarrow> (\<forall>e\<in>set rows. name_key lower e \<noteq> k)"
  by (simp add: existing_by_name_last filter_empty_conv)

lemma existing_by_name_Some:
  assumes "existing_by_name lower rows k = Some e"
  shows "e \<in> set rows \<and> name_key lower e = k"
proof -
  from assms have ne: "filter (\<lambda>e. name_key lower e = k) rows \<noteq> []"
    and e: "e = last (filter (\<lambda>e. name_key lower e = k) rows)"
    by (auto simp: existing_by_name_last split: if_splits)
  from last_in_set[OF ne] e have "e \<in> set (filter (\<lambda>e. name_key lower e = k) rows)" by simp
  then show ?thesis by simp
qed

lemma stored_after_set:
  assumes "set_agent_ci_file_ids r agent_id file_ids = (Inr body, r')"
  shows "stored_ci_file_ids r' agent_id = Some file_ids"
proof -
  from set_agent_ci_file_ids_Inr[OF assms] obtain a where
    "body = update_body a file_ids" "r_agents r' agent_id = Some body" by auto
  then show ?thesis by (simp add: stored_ci_file_ids_def)
qed

lemma stored_before_list:
  assumes "list_agent_ci_files r agent_id = (Inr rows, r')"
  shows "stored_ci_file_ids r agent_id = Some (map file_id rows)"
  using list_agent_ci_files_Inr(1)[OF assms] by (auto simp: stored_ci_file_ids_def)

lemma stored_cong:
  "r_agents r' = r_agents r \<Longrightarrow> stored_ci_file_ids r' = stored_ci_file_ids r"
  by (simp add: stored_ci_file_ids_def fun_eq_iff)

text \<open>What a successful \<open>persist_in_ci\<close> stores, by branch.\<close>

lemma persist_in_ci_stored:
  assumes l: "list_agent_ci_files r agent_id = (Inr ci_files, r1)"
    and ok: "o_ctl (persist_in_ci lower r st agent_id name new_id) = Rerun"
  shows "stored_ci_file_ids (o_remote (persist_in_ci lower r st agent_id name new_id)) agent_id =
           Some (case existing_by_name lower ci_files (lower name) of
                   Some e \<Rightarrow> map (\<lambda>fid. if fid = file_id e then new_id else fid) (map file_id ci_files)
                 | None \<Rightarrow> map file_id ci_files @ [new_id])"
proof (cases rule: persist_in_ci_cases[where lower=lower and r=r and agent_id=agent_id and name=name and new_id=new_id])
  case (list_failed e r1)
  with l show ?thesis by simp
next
  case (overwrite_failed ci_files' r1' e ex r2)
  from persist_overwrite_failed[OF overwrite_failed, of st] ok show ?thesis by simp
next
  case (overwritten ci_files' r1' e body r2 d r3)
  from overwritten(1) l have eq: "ci_files' = ci_files" by simp
  from stored_after_set[OF overwritten(3)] stored_cong[OF files_delete_agents[OF overwritten(4)]]
    persist_overwrite_ok[OF overwritten, of st] overwritten(2) eq
  show ?thesis by simp
next
  case (append_failed ci_files' r1' ex r2)
  from persist_append_failed[OF append_failed, of st] ok show ?thesis by simp
next
  case (appended ci_files' r1' body r2)
  from appended(1) l have eq: "ci_files' = ci_files" by simp
  from stored_after_set[OF appended(3)] persist_append_ok[OF appended, of st] appended(2) eq
  show ?thesis by simp
qed

lemma upload_and_persist_Rerun:
  assumes "o_ctl (upload_and_persist lower tmp_write r st agent_id name data new_id) = Rerun"
  shows "\<exists>r0. upload_file tmp_write r new_id name data = (Inr new_id, r0)"
proof -
  obtain x r0 where u: "upload_file tmp_write r new_id name data = (x, r0)"
    by (cases "upload_file tmp_write r new_id name data")
  show ?thesis
  proof (cases x)
    case (Inl e)
    with u upload_and_persist_Inl[of tmp_write r new_id name data e r0 lower st agent_id] assms
    show ?thesis by simp
  next
    case (Inr i)
    with u upload_file_Inr[of tmp_write r new_id name data i r0] show ?thesis by simp
  qed
qed

lemma upload_and_persist_stored:
  assumes l: "list_agent_ci_files (snd (upload_file tmp_write r new_id name data)) agent_id = (Inr ci_files, r1)"
    and ok: "o_ctl (upload_and_persist lower tmp_write r st agent_id name data new_id) = Rerun"
  shows "stored_ci_file_ids r agent_id = Some (map file_id ci_files)"
    and "stored_ci_file_ids (o_remote (upload_and_persist lower tmp_write r st agent_id name data new_id)) agent_id =
           Some (case existing_by_name lower ci_files (lower name) of
                   Some e \<Rightarrow> map (\<lambda>fid. if fid = file_id e then new_id else fid) (map file_id ci_files)
                 | None \<Rightarrow> map file_id ci_files @ [new_id])"
proof -
  from upload_and_persist_Rerun[OF ok] obtain r0 where
    u: "upload_file tmp_write r new_id name data = (Inr new_id, r0)" by blast
  from l u have l0: "list_agent_ci_files r0 agent_id = (Inr ci_files, r1)" by simp
  from stored_before_list[OF l0] stored_cong[OF upload_file_frame[OF u]]
  show "stored_ci_file_ids r agent_id = Some (map file_id ci_files)" by simp
  from ok upload_and_persist_Inr[OF u, of lower st agent_id]
  have ok0: "o_ctl (persist_in_ci lower r0
       (log (st\<lparr>ss_file_id := Some new_id\<rparr>)
            (''Uploaded new file_id='' @ new_id @ '' for '' @ quoted name @ ''.''))
       agent_id name new_id) = Rerun" by simp
  from persist_in_ci_stored[OF l0 ok0] upload_and_persist_Inr[OF u, of lower st agent_id]
  show "stored_ci_file_ids (o_remote (upload_and_persist lower tmp_write r st agent_id name data new_id)) agent_id =
           Some (case existing_by_name lower ci_files (lower name) of
                   Some e \<Rightarrow> map (\<lambda>fid. if fid = file_id e then new_id else fid) (map file_id ci_files)
                 | None \<Rightarrow> map file_id ci_files @ [new_id])" by simp
qed

lemma ascii_lower_ex1: "ascii_lower ''DATA.CSV'' = ''data.csv''"
  by code_simp


lemma ascii_lower_ex3: "ascii_lower ''data.csv'' = ''data.csv''"
  by (simp add: ascii_lower_def ascii_lower_char_def)

lemma list_after_upload_remote0:
  "new_id \<noteq> ''id1'' \<Longrightarrow>
   list_agent_ci_files (snd (upload_file no_tmp_error remote0 new_id name data)) ''A'' =
     (Inr [row1],
      remote0\<lparr>r_files := (r_files remote0)(new_id \<mapsto> \<lparr>m_filename = Val name, m_bytes = Some (length data)\<rparr>),
              r_calls := 3\<rparr>)"
  by (simp add: upload_file_def no_tmp_error_def files_upload_def list_agent_ci_files_def get_agent_def files_get_rest_def
        http_call_def ci_file_ids_def meta_row_def remote0_def agent0_def row1_def Let_def)

lemma name_key_row1: "name_key ascii_lower row1 = ''data.csv''"
  by (simp add: name_key_def row1_def or_empty_def ascii_lower_ex3)


lemma held_key_cong:
  "r_files r' g = r_files r g \<Longrightarrow> held_key lower r' g = held_key lower r g"
  by (simp add: held_key_def)

lemma held_key_uploaded:
  "r_files r g = Some \<lparr>m_filename = Val name, m_bytes = n\<rparr> \<Longrightarrow> held_key lower r g = Some (lower name)"
  by (simp add: held_key_def name_key_def meta_row_def or_empty_def)

text \<open>
  The upload of \<open>DATA.CSV\<close> on the service of \<open>remote0\<close> when the fetch of the metadata of
  the attached file fails: the listing shows the file as \<open>(unavailable)\<close>, no row matches
  the name, and the new id is appended.
\<close>

lemma upload_remote_fetch_down:
  "o_ctl (upload_and_persist ascii_lower no_tmp_error remote_fetch_down session0 ''A'' ''DATA.CSV'' ''a,b'' ''id2'') = Rerun"
  "stored_ci_file_ids
     (o_remote (upload_and_persist ascii_lower no_tmp_error remote_fetch_down session0 ''A'' ''DATA.CSV'' ''a,b'' ''id2'')) ''A''
     = Some [''id1'', ''id2'']"
  "r_files (o_remote (upload_and_persist ascii_lower no_tmp_error remote_fetch_down session0 ''A'' ''DATA.CSV'' ''a,b'' ''id2''))
     = (r_files remote0)(''id2'' \<mapsto> \<lparr>m_filename = Val ''DATA.CSV'', m_bytes = Some (length ''a,b'')\<rparr>)"
  "fst (list_agent_ci_files (snd (upload_file no_tmp_error remote_fetch_down ''id2'' ''DATA.CSV'' ''a,b'')) ''A'')
     = Inr [\<lparr>file_id = ''id1'', filename = Some ''(unavailable)'', bytes = None\<rparr>]"
proof -
  let ?files = "(r_files remote0)(''id2'' \<mapsto> \<lparr>m_filename = Val ''DATA.CSV'', m_bytes = Some (length ''a,b'')\<rparr>)"
  let ?r0 = "remote_fetch_down\<lparr>r_files := ?files, r_faults := [False, True], r_calls := 1\<rparr>"
  let ?r1 = "remote_fetch_down\<lparr>r_files := ?files, r_faults := [], r_calls := 3\<rparr>"
  have u: "upload_file no_tmp_error remote_fetch_down ''id2'' ''DATA.CSV'' ''a,b'' = (Inr ''id2'', ?r0)"
    by (simp add: upload_file_def no_tmp_error_def files_upload_def http_call_def
          remote_fetch_down_def remote0_def)
  have l: "list_agent_ci_files ?r0 ''A'' = (Inr [unavailable_row ''id1''], ?r1)"
    by (simp add: list_agent_ci_files_def get_agent_def files_get_rest_def http_call_def
          ci_file_ids_def remote_fetch_down_def remote0_def agent0_def)
  have k: "name_key ascii_lower (unavailable_row ''id1'') = ''(unavailable)''"
    by (simp add: name_key_def unavailable_row_def or_empty_def ascii_lower_def ascii_lower_char_def)
  have n: "existing_by_name ascii_lower [unavailable_row ''id1''] (ascii_lower ''DATA.CSV'') = None"
    by (simp add: existing_by_name_None k ascii_lower_ex1)
  obtain body r2 where s: "set_agent_ci_file_ids ?r1 ''A''
      (map file_id [unavailable_row ''id1''] @ [''id2'']) = (Inr body, r2)"
    by (simp add: set_agent_ci_file_ids_def get_agent_def http_call_def
          remote_fetch_down_def remote0_def Let_def)
  from persist_append_ok[OF l n s] upload_and_persist_Inr[OF u, of ascii_lower session0 "''A''"]
  have o: "o_remote (upload_and_persist ascii_lower no_tmp_error remote_fetch_down session0 ''A'' ''DATA.CSV'' ''a,b'' ''id2'') = r2"
    and c: "o_ctl (upload_and_persist ascii_lower no_tmp_error remote_fetch_down session0 ''A'' ''DATA.CSV'' ''a,b'' ''id2'') = Rerun"
    by simp_all
  from c show "o_ctl (upload_and_persist ascii_lower no_tmp_error remote_fetch_down session0 ''A'' ''DATA.CSV'' ''a,b'' ''id2'') = Rerun" .
  from stored_after_set[OF s] o
  show "stored_ci_file_ids
     (o_remote (upload_and_persist ascii_lower no_tmp_error remote_fetch_down session0 ''A'' ''DATA.CSV'' ''a,b'' ''id2'')) ''A''
     = Some [''id1'', ''id2'']" by (simp add: unavailable_row_def)
  from set_agent_ci_file_ids_Inr(3)[OF s] o
  show "r_files (o_remote (upload_and_persist ascii_lower no_tmp_error remote_fetch_down session0 ''A'' ''DATA.CSV'' ''a,b'' ''id2''))
     = ?files" by (simp add: remote_fetch_down_def)
  from u l show "fst (list_agent_ci_files (snd (upload_file no_tmp_error remote_fetch_down ''id2'' ''DATA.CSV'' ''a,b'')) ''A'')
     = Inr [\<lparr>file_id = ''id1'', filename = Some ''(unavailable)'', bytes = None\<rparr>]"
    by (simp add: unavailable_row_def)
qed

lemma held_key_data_csv:
  "r_files r g = Some \<lparr>m_filename = Val ''data.csv'', m_bytes = n\<rparr> \<Longrightarrow>
     held_key ascii_lower r g = Some ''data.csv''"
  "r_files r g = Some \<lparr>m_filename = Val ''DATA.CSV'', m_bytes = n\<rparr> \<Longrightarrow>
     held_key ascii_lower r g = Some ''data.csv''"
  by (simp_all add: held_key_uploaded ascii_lower_ex1 ascii_lower_ex3)


subsection \<open>Uploading under a new name appends\<close>




lemma upload_DATA_remote0:
  "o_ctl (upload_and_persist ascii_lower no_tmp_error remote0 session0 ''A'' ''DATA.CSV'' ''a,b'' ''id2'') = Rerun"
proof -
  have u: "upload_file no_tmp_error remote0 ''id2'' ''DATA.CSV'' ''a,b'' =
     (Inr ''id2'', snd (upload_file no_tmp_error remote0 ''id2'' ''DATA.CSV'' ''a,b''))"
    by (simp add: upload_file_def no_tmp_error_def files_upload_def http_call_def remote0_def Let_def)
  have l: "list_agent_ci_files (snd (upload_file no_tmp_error remote0 ''id2'' ''DATA.CSV'' ''a,b'')) ''A'' =
     (Inr [row1],
      remote0\<lparr>r_files := (r_files remote0)(''id2'' \<mapsto> \<lparr>m_filename = Val ''DATA.CSV'', m_bytes = Some (length ''a,b'')\<rparr>),
              r_calls := 3\<rparr>)"
    by (rule list_after_upload_remote0) simp
  have n: "existing_by_name ascii_lower [row1] (ascii_lower ''DATA.CSV'') = Some row1"
    by (simp add: existing_by_name_last name_key_row1 ascii_lower_ex1)
  obtain body r2 where s: "set_agent_ci_file_ids
      (remote0\<lparr>r_files := (r_files remote0)(''id2'' \<mapsto> \<lparr>m_filename = Val ''DATA.CSV'', m_bytes = Some (length ''a,b'')\<rparr>),
              r_calls := 3\<rparr>) ''A''
      (map (\<lambda>fid. if fid = file_id row1 then ''id2'' else fid) (map file_id [row1])) = (Inr body, r2)"
    by (simp add: set_agent_ci_file_ids_def get_agent_def http_call_def remote0_def Let_def)
  obtain d r3 where d: "files_delete r2 (file_id row1) = (d, r3)"
    by (cases "files_delete r2 (file_id row1)")
  from persist_overwrite_ok[OF l n s d] upload_and_persist_Inr[OF u, of ascii_lower session0 "''A''"]
  show ?thesis by simp
qed

subsection \<open>Uploading under an existing name replaces in place\<close>

text \<open>
  C2, as stated, fails when the listing cannot fetch the metadata of the attached file
  whose name matches: the handler matches the uploaded name against the filenames that
  its listing shows, and the row of that file reads \<open>(unavailable)\<close>. With \<open>id1\<close> held
  under the name \<open>data.csv\<close> and a failing fetch, uploading \<open>DATA.CSV\<close> as \<open>id2\<close>
  completes and leaves the list \<open>[id1, id2]\<close>: one id longer, \<open>id1\<close> still in its place.
\<close>

theorem upload_unlisted_match_counterexample:
  "stored_ci_file_ids remote_fetch_down ''A'' = Some [''id1'']
   \<and> held_key ascii_lower remote_fetch_down ''id1'' = Some (ascii_lower ''DATA.CSV'')
   \<and> o_ctl (upload_and_persist ascii_lower no_tmp_error remote_fetch_down session0 ''A'' ''DATA.CSV'' ''a,b'' ''id2'') = Rerun
   \<and> stored_ci_file_ids
        (o_remote (upload_and_persist ascii_lower no_tmp_error remote_fetch_down session0 ''A'' ''DATA.CSV'' ''a,b'' ''id2'')) ''A''
      = Some [''id1'', ''id2'']
   \<and> length [''id1'', ''id2''] \<noteq> length [''id1'']
   \<and> [''id1'', ''id2''] ! 0 \<noteq> ''id2''"
proof -
  have a: "stored_ci_file_ids remote_fetch_down ''A'' = Some [''id1'']"
    by (simp add: stored_ci_file_ids_def remote_fetch_down_def remote0_def agent0_def ci_file_ids_def)
  have b: "held_key ascii_lower remote_fetch_down ''id1'' = Some (ascii_lower ''DATA.CSV'')"
    unfolding ascii_lower_ex1
    by (rule held_key_data_csv(1)) (simp add: remote_fetch_down_def remote0_def)
  have c: "length [''id1'', ''id2''] \<noteq> length [''id1'']" "[''id1'', ''id2''] ! 0 \<noteq> ''id2''"
    by simp_all
  from a b upload_remote_fetch_down(1) upload_remote_fetch_down(2) c
  show ?thesis by (intro conjI)
qed

text \<open>
  C2, amended. An upload whose filename matches, case-insensitively, the filename that the
  handler's listing of the agent's attached files shows in one of its rows, and whose
  update of the agent goes through, leaves a tool-resources id list of the same length:
  the id \<open>old_id\<close> of a matching row held some position, every position that held
  \<open>old_id\<close> now holds the new id, and every other position is unchanged.
\<close>

theorem upload_same_name_replaces:
  assumes "list_agent_ci_files (snd (upload_file tmp_write r new_id name data)) agent_id = (Inr ci_files, r1)"
    and "\<exists>e\<in>set ci_files. lower (or_empty (filename e)) = lower name"
    and "o_ctl (upload_and_persist lower tmp_write r st agent_id name data new_id) = Rerun"
  shows "\<exists>old_id old_ids new_ids.
           stored_ci_file_ids r agent_id = Some old_ids
         \<and> old_ids = map file_id ci_files
         \<and> (\<exists>e\<in>set ci_files. file_id e = old_id
                \<and> lower (or_empty (filename e)) = lower name)
         \<and> stored_ci_file_ids (o_remote (upload_and_persist lower tmp_write r st agent_id name data new_id)) agent_id
             = Some new_ids
         \<and> length new_ids = length old_ids
         \<and> (\<exists>i<length old_ids. old_ids ! i = old_id \<and> new_ids ! i = new_id)
         \<and> (\<forall>i<length old_ids. new_ids ! i = (if old_ids ! i = old_id then new_id else old_ids ! i))"
proof -
  from assms(2) obtain e where e: "existing_by_name lower ci_files (lower name) = Some e"
    by (cases "existing_by_name lower ci_files (lower name)")
       (auto simp: existing_by_name_None name_key_def)
  from existing_by_name_Some[OF e] have m: "e \<in> set ci_files" "name_key lower e = lower name"
    by simp_all
  from m(1) obtain i where i: "i < length ci_files" "ci_files ! i = e"
    by (auto simp: in_set_conv_nth)
  let ?old = "map file_id ci_files"
  let ?new = "map (\<lambda>fid. if fid = file_id e then new_id else fid) ?old"
  from upload_and_persist_stored[OF assms(1) assms(3)] e
  have s: "stored_ci_file_ids r agent_id = Some ?old"
    "stored_ci_file_ids (o_remote (upload_and_persist lower tmp_write r st agent_id name data new_id)) agent_id
       = Some ?new" by simp_all
  have a: "\<exists>e'\<in>set ci_files. file_id e' = file_id e
                \<and> lower (or_empty (filename e')) = lower name"
    using m by (auto simp: name_key_def)
  have b: "\<exists>i<length ?old. ?old ! i = file_id e \<and> ?new ! i = new_id"
    using i by (intro exI[of _ i]) simp
  have c: "\<forall>i<length ?old. ?new ! i = (if ?old ! i = file_id e then new_id else ?old ! i)"
    by simp
  have d: "length ?new = length ?old" by simp
  from s a b c d show ?thesis by blast
qed

theorem upload_same_name_replaces_witness:
  "stored_ci_file_ids remote0 ''A'' = Some [''id1'']
   \<and> stored_ci_file_ids
        (o_remote (upload_and_persist ascii_lower no_tmp_error remote0 session0 ''A'' ''DATA.CSV'' ''a,b'' ''id2'')) ''A''
      = Some [''id2'']"
proof -
  have l: "list_agent_ci_files (snd (upload_file no_tmp_error remote0 ''id2'' ''DATA.CSV'' ''a,b'')) ''A'' =
     (Inr [row1],
      remote0\<lparr>r_files := (r_files remote0)(''id2'' \<mapsto> \<lparr>m_filename = Val ''DATA.CSV'', m_bytes = Some (length ''a,b'')\<rparr>),
              r_calls := 3\<rparr>)"
    by (rule list_after_upload_remote0) simp
  have n: "\<exists>e\<in>set [row1]. ascii_lower (or_empty (filename e)) = ascii_lower ''DATA.CSV''"
    using name_key_row1 by (simp add: name_key_def ascii_lower_ex1)
  from upload_same_name_replaces[OF l n upload_DATA_remote0]
  show ?thesis by (auto simp: row1_def length_Suc_conv)
qed

subsection \<open>The Delete button\<close>

lemma length_filter_neq:
  "length (filter (\<lambda>x. x \<noteq> a) xs) + count_list xs a = length xs"
  by (induction xs) auto

lemma count_list_distinct:
  "distinct xs \<Longrightarrow> a \<in> set xs \<Longrightarrow> count_list xs a = 1"
  by (induction xs) (auto simp: count_list_0_iff)

lemma delete_button_stored:
  assumes "o_ctl (delete_button r st agent_id ci_files f) = Rerun"
  shows "stored_ci_file_ids (o_remote (delete_button r st agent_id ci_files f)) agent_id =
           Some (filter (\<lambda>x. x \<noteq> file_id f) (map file_id ci_files))"
proof -
  from delete_button_Rerun[OF assms] obtain body r1 d where
    s: "set_agent_ci_file_ids r agent_id
            (map file_id (filter (\<lambda>x. file_id x \<noteq> file_id f) ci_files)) = (Inr body, r1)"
    and d: "files_delete r1 (file_id f) = (d, o_remote (delete_button r st agent_id ci_files f))"
    by blast
  have "map file_id (filter (\<lambda>x. file_id x \<noteq> file_id f) ci_files)
          = filter (\<lambda>x. x \<noteq> file_id f) (map file_id ci_files)"
    by (simp add: filter_map comp_def)
  with stored_after_set[OF s] stored_cong[OF files_delete_agents[OF d]]
  show ?thesis by simp
qed

lemma list_remote_dup:
  "list_agent_ci_files remote_dup ''A'' = (Inr [row1, row1], remote_dup\<lparr>r_calls := 3\<rparr>)"
  by (simp add: list_agent_ci_files_def get_agent_def files_get_rest_def
        http_call_def ci_file_ids_def meta_row_def remote_dup_def agent_dup_def row1_def Let_def)

lemma delete_remote_dup:
  "o_ctl (delete_button (remote_dup\<lparr>r_calls := 3\<rparr>) session0 ''A'' [row1, row1] row1) = Rerun"
proof -
  obtain body r1 where s: "set_agent_ci_file_ids (remote_dup\<lparr>r_calls := 3\<rparr>) ''A''
      (map file_id (filter (\<lambda>x. file_id x \<noteq> file_id row1) [row1, row1])) = (Inr body, r1)"
    by (simp add: set_agent_ci_file_ids_def get_agent_def http_call_def remote_dup_def Let_def)
  obtain d r2 where d: "files_delete r1 (file_id row1) = (d, r2)"
    by (cases "files_delete r1 (file_id row1)")
  from delete_button_Inr[OF s d, of session0] show ?thesis by simp
qed

text \<open>
  C4, as stated, fails when the id of the deleted file occurs twice in the agent's list
  (the service does not enforce uniqueness): the handler drops every occurrence. On the
  list \<open>[id1, id1]\<close> deleting \<open>id1\<close> leaves no id, not one.
\<close>

theorem delete_duplicate_id_counterexample:
  "list_agent_ci_files remote_dup ''A'' = (Inr [row1, row1], remote_dup\<lparr>r_calls := 3\<rparr>)
   \<and> row1 \<in> set [row1, row1]
   \<and> stored_ci_file_ids (remote_dup\<lparr>r_calls := 3\<rparr>) ''A'' = Some [''id1'', ''id1'']
   \<and> o_ctl (delete_button (remote_dup\<lparr>r_calls := 3\<rparr>) session0 ''A'' [row1, row1] row1) = Rerun
   \<and> stored_ci_file_ids
        (o_remote (delete_button (remote_dup\<lparr>r_calls := 3\<rparr>) session0 ''A'' [row1, row1] row1)) ''A''
      = Some []
   \<and> length ([] :: fid list) \<noteq> length [''id1'', ''id1''] - 1"
proof -
  have a: "stored_ci_file_ids (remote_dup\<lparr>r_calls := 3\<rparr>) ''A'' = Some [''id1'', ''id1'']"
    by (simp add: stored_ci_file_ids_def remote_dup_def agent_dup_def ci_file_ids_def)
  from delete_button_stored[OF delete_remote_dup]
  have b: "stored_ci_file_ids
        (o_remote (delete_button (remote_dup\<lparr>r_calls := 3\<rparr>) session0 ''A'' [row1, row1] row1)) ''A''
      = Some []" by (simp add: row1_def)
  from list_remote_dup a b delete_remote_dup show ?thesis by simp
qed

text \<open>
  C4, amended. Deleting a listed file, when the update of the agent goes through, leaves
  the agent's tool-resources id list with every occurrence of that file's id removed:
  its length is \<open>N\<close> minus the number of occurrences, hence exactly \<open>N - 1\<close> when the id
  occurs once, in particular when the ids are distinct. The id is not in the list any
  more, and no later listing of the agent's files from the resulting state shows it.
\<close>

theorem delete_removes_listed_id:
  assumes "list_agent_ci_files r0 agent_id = (Inr ci_files, r)"
    and "f \<in> set ci_files"
    and "o_ctl (delete_button r st agent_id ci_files f) = Rerun"
  shows "\<exists>ids ids'.
           stored_ci_file_ids r agent_id = Some ids
         \<and> ids = map file_id ci_files
         \<and> stored_ci_file_ids (o_remote (delete_button r st agent_id ci_files f)) agent_id = Some ids'
         \<and> ids' = filter (\<lambda>x. x \<noteq> file_id f) ids
         \<and> length ids' = length ids - count_list ids (file_id f)
         \<and> (count_list ids (file_id f) = 1 \<longrightarrow> length ids' = length ids - 1)
         \<and> (distinct ids \<longrightarrow> length ids' = length ids - 1)
         \<and> file_id f \<notin> set ids'
         \<and> (\<forall>rows r'. list_agent_ci_files (o_remote (delete_button r st agent_id ci_files f)) agent_id
                         = (Inr rows, r')
               \<longrightarrow> file_id f \<notin> file_id ` set rows)"
proof -
  let ?ids = "map file_id ci_files"
  let ?ids' = "filter (\<lambda>x. x \<noteq> file_id f) ?ids"
  let ?out = "delete_button r st agent_id ci_files f"
  from stored_before_list[OF assms(1)] stored_cong[OF list_agent_ci_files_Inr(2)[OF assms(1)]]
  have a: "stored_ci_file_ids r agent_id = Some ?ids" by simp
  note b = delete_button_stored[OF assms(3)]
  from length_filter_neq[of "file_id f" ?ids]
  have c: "length ?ids' = length ?ids - count_list ?ids (file_id f)" by simp
  from assms(2) have mem: "file_id f \<in> set ?ids" by simp
  from c have d: "count_list ?ids (file_id f) = 1 \<longrightarrow> length ?ids' = length ?ids - 1" by simp
  from c count_list_distinct[OF _ mem]
  have e: "distinct ?ids \<longrightarrow> length ?ids' = length ?ids - 1" by simp
  have g: "file_id f \<notin> set ?ids'" by simp
  have h: "\<forall>rows r'. list_agent_ci_files (o_remote ?out) agent_id = (Inr rows, r')
               \<longrightarrow> file_id f \<notin> file_id ` set rows"
  proof (intro allI impI)
    fix rows r'
    assume l: "list_agent_ci_files (o_remote ?out) agent_id = (Inr rows, r')"
    from stored_before_list[OF l] b have "map file_id rows = ?ids'" by simp
    then have "set (map file_id rows) = set ?ids'" by simp
    with g show "file_id f \<notin> file_id ` set rows" by simp
  qed
  from a b c d e g h show ?thesis by blast
qed

lemma list_remote0:
  "list_agent_ci_files remote0 ''A'' = (Inr [row1], remote0\<lparr>r_calls := 2\<rparr>)"
  by (simp add: list_agent_ci_files_def get_agent_def files_get_rest_def
        http_call_def ci_file_ids_def meta_row_def remote0_def agent0_def row1_def Let_def)

lemma delete_remote0:
  "o_ctl (delete_button (remote0\<lparr>r_calls := 2\<rparr>) session0 ''A'' [row1] row1) = Rerun"
proof -
  obtain body r1 where s: "set_agent_ci_file_ids (remote0\<lparr>r_calls := 2\<rparr>) ''A''
      (map file_id (filter (\<lambda>x. file_id x \<noteq> file_id row1) [row1])) = (Inr body, r1)"
    by (simp add: set_agent_ci_file_ids_def get_agent_def http_call_def remote0_def Let_def)
  obtain d r2 where d: "files_delete r1 (file_id row1) = (d, r2)"
    by (cases "files_delete r1 (file_id row1)")
  from delete_button_Inr[OF s d, of session0] show ?thesis by simp
qed

theorem delete_removes_listed_id_witness:
  "stored_ci_file_ids (remote0\<lparr>r_calls := 2\<rparr>) ''A'' = Some [''id1'']
   \<and> stored_ci_file_ids
        (o_remote (delete_button (remote0\<lparr>r_calls := 2\<rparr>) session0 ''A'' [row1] row1)) ''A''
      = Some []"
proof -
  have m: "row1 \<in> set [row1]" by simp
  from delete_removes_listed_id[OF list_remote0 m delete_remote0]
  show ?thesis by (auto simp: row1_def)
qed

subsection \<open>The listing of the attached files\<close>

lemma call_fails_Nil [simp]: "call_fails [] i = False"
  by (simp add: call_fails_def)

lemma call_fails_Cons_0 [simp]: "call_fails (b # bs) 0 = b"
  by (simp add: call_fails_def)

lemma call_fails_Cons_Suc [simp]: "call_fails (b # bs) (Suc i) = call_fails bs i"
  by (simp add: call_fails_def)

lemma http_call_faults:
  "http_call r = (ok, r') \<Longrightarrow>
     ok = (\<not> call_fails (r_faults r) 0)
     \<and> (\<forall>i. call_fails (r_faults r') i = call_fails (r_faults r) (Suc i))"
  by (cases "r_faults r") (auto simp: http_call_def)

lemma files_get_rest_result:
  assumes "files_get_rest r fid = (x, r')"
  shows "r_files r' = r_files r" and "r_agents r' = r_agents r"
    and "\<forall>i. call_fails (r_faults r') i = call_fails (r_faults r) (Suc i)"
    and "(case x of Inl e \<Rightarrow> unavailable_row fid | Inr m \<Rightarrow> meta_row fid m)
           = listed_row (call_fails (r_faults r) 0) (r_files r fid) fid"
proof -
  obtain ok r1 where h: "http_call r = (ok, r1)" by (cases "http_call r")
  from assms h have r': "r' = r1"
    by (auto simp: files_get_rest_def split: if_splits option.splits)
  from http_call_frame[OF h] http_call_faults[OF h] r'
  show "r_files r' = r_files r" "r_agents r' = r_agents r"
    "\<forall>i. call_fails (r_faults r') i = call_fails (r_faults r) (Suc i)" by simp_all
  from assms h http_call_frame[OF h] http_call_faults[OF h]
  show "(case x of Inl e \<Rightarrow> unavailable_row fid | Inr m \<Rightarrow> meta_row fid m)
           = listed_row (call_fails (r_faults r) 0) (r_files r fid) fid"
    by (auto simp: files_get_rest_def listed_row_def split: if_splits option.splits)
qed

lemma files_get_rest_fails_iff:
  "(\<exists>e. fst (files_get_rest r fid) = Inl e) \<longleftrightarrow> call_fails (r_faults r) 0 \<or> r_files r fid = None"
proof -
  obtain ok r1 where h: "http_call r = (ok, r1)" by (cases "http_call r")
  from h http_call_frame[OF h] http_call_faults[OF h] show ?thesis
    by (auto simp: files_get_rest_def split: if_splits option.splits)
qed

lemma resolve_rows_rows:
  "fst (resolve_rows r ids acc) =
     acc @ map (\<lambda>i. listed_row (call_fails (r_faults r) i) (r_files r (ids ! i)) (ids ! i))
               [0..<length ids]"
proof (induction ids arbitrary: r acc)
  case Nil
  then show ?case by simp
next
  case (Cons fid ids)
  obtain x r1 where g: "files_get_rest r fid = (x, r1)" by (cases "files_get_rest r fid")
  note res = files_get_rest_result[OF g]
  let ?row = "listed_row (call_fails (r_faults r) 0) (r_files r fid) fid"
  have step: "resolve_rows r (fid # ids) acc = resolve_rows r1 ids (acc @ [?row])"
    using g res(4) by (cases x) simp_all
  have shift: "map (\<lambda>i. listed_row (call_fails (r_faults r) i) (r_files r ((fid # ids) ! i)) ((fid # ids) ! i))
                  [0..<length (fid # ids)]
             = ?row # map (\<lambda>i. listed_row (call_fails (r_faults r1) i) (r_files r1 (ids ! i)) (ids ! i))
                  [0..<length ids]"
    using res(1) res(3) by (simp add: upt_conv_Cons map_Suc_upt[symmetric] del: upt_Suc)
  show ?case unfolding step Cons.IH shift by simp
qed



subsection \<open>One id per filename\<close>

lemma http_call_nofault:
  "r_faults r = [] \<Longrightarrow> http_call r = (True, r\<lparr>r_calls := Suc (r_calls r)\<rparr>)"
  by (simp add: http_call_def)

lemma get_agent_nofault:
  assumes "r_faults r = []" and "r_agents r agent_id = Some a"
  shows "\<exists>r1. get_agent r agent_id = (Inr a, r1) \<and> r_faults r1 = []
              \<and> r_agents r1 = r_agents r \<and> r_files r1 = r_files r"
  using assms by (simp add: get_agent_def http_call_nofault)

lemma files_get_rest_nofault:
  assumes "r_faults r = []"
  shows "\<exists>x r1. files_get_rest r fid = (x, r1) \<and> r_faults r1 = []"
  using assms by (cases "r_files r fid") (simp_all add: files_get_rest_def http_call_nofault)

lemma resolve_rows_nofault:
  "r_faults r = [] \<Longrightarrow> r_faults (snd (resolve_rows r ids acc)) = []"
proof (induction ids arbitrary: r acc)
  case Nil
  then show ?case by simp
next
  case (Cons fid ids)
  from files_get_rest_nofault[OF Cons.prems, of fid] obtain x r1 where
    g: "files_get_rest r fid = (x, r1)" and f: "r_faults r1 = []" by blast
  from g Cons.IH[OF f] show ?case by (cases x) simp_all
qed

lemma list_agent_ci_files_nofault:
  assumes "r_faults r = []" and "r_agents r agent_id = Some a" and "ci_file_ids a = Inr ids"
  shows "\<exists>r2. list_agent_ci_files r agent_id
                 = (Inr (map (\<lambda>fid. listed_row False (r_files r fid) fid) ids), r2)
              \<and> r_faults r2 = [] \<and> r_agents r2 = r_agents r \<and> r_files r2 = r_files r"
proof -
  from get_agent_nofault[OF assms(1,2)] obtain r1 where
    g: "get_agent r agent_id = (Inr a, r1)" and f1: "r_faults r1 = []"
    and fr: "r_files r1 = r_files r" by blast
  obtain rows r2 where rr: "resolve_rows r1 ids [] = (rows, r2)"
    by (cases "resolve_rows r1 ids []")
  from g assms(3) rr have l: "list_agent_ci_files r agent_id = (Inr rows, r2)"
    by (simp add: list_agent_ci_files_def)
  from resolve_rows_rows[of r1 ids "[]"] rr f1 fr
  have "rows = map (\<lambda>i. listed_row False (r_files r (ids ! i)) (ids ! i)) [0..<length ids]"
    by simp
  also have "\<dots> = map (\<lambda>fid. listed_row False (r_files r fid) fid) ids"
    by (rule nth_equalityI) simp_all
  finally have rows: "rows = map (\<lambda>fid. listed_row False (r_files r fid) fid) ids" .
  from resolve_rows_nofault[OF f1, of ids "[]"] rr have f2: "r_faults r2 = []" by simp
  from l rows f2 list_agent_ci_files_frame[OF l] show ?thesis by simp
qed

lemma set_agent_ci_file_ids_nofault:
  assumes "r_faults r = []" and "r_agents r agent_id = Some a"
  shows "\<exists>r2. set_agent_ci_file_ids r agent_id ids = (Inr (update_body a ids), r2)
              \<and> r_faults r2 = []
              \<and> r_agents r2 = (r_agents r)(agent_id \<mapsto> update_body a ids)
              \<and> r_files r2 = r_files r"
proof -
  from get_agent_nofault[OF assms] obtain r1 where
    g: "get_agent r agent_id = (Inr a, r1)" and f1: "r_faults r1 = []"
    and ar: "r_agents r1 = r_agents r" and fr: "r_files r1 = r_files r" by blast
  from g http_call_nofault[OF f1] f1 ar fr assms(2) show ?thesis
    by (simp add: set_agent_ci_file_ids_def Let_def)
qed

lemma files_delete_nofault:
  assumes "r_faults r = []"
  shows "\<exists>d r3. files_delete r fid = (d, r3) \<and> r_faults r3 = [] \<and> r_agents r3 = r_agents r
                \<and> (\<forall>g. g \<noteq> fid \<longrightarrow> r_files r3 g = r_files r g)"
  using assms by (cases "r_files r fid") (simp_all add: files_delete_def http_call_nofault)

lemma upload_file_nofault:
  assumes "r_faults r = []" and "tmp_write name data = None"
  shows "\<exists>r0. upload_file tmp_write r new_id name data = (Inr new_id, r0) \<and> r_faults r0 = []
              \<and> r_agents r0 = r_agents r
              \<and> r_files r0 = (r_files r)(new_id \<mapsto> \<lparr>m_filename = Val name, m_bytes = Some (length data)\<rparr>)"
  using assms by (simp add: upload_file_def files_upload_def http_call_nofault)

lemma file_id_listed_row [simp]: "file_id (listed_row b m fid) = fid"
  by (simp add: listed_row_def unavailable_row_def meta_row_def split: option.splits)

lemma name_key_uploaded:
  "name_key lower (listed_row False (Some \<lparr>m_filename = Val name, m_bytes = n\<rparr>) fid) = lower name"
  by (simp add: listed_row_def meta_row_def name_key_def or_empty_def)

text \<open>
  The upload handler on a service where no call fails: it completes, and this is the
  state it leaves.
\<close>

lemma upload_and_persist_nofault:
  assumes nf: "r_faults r = []"
    and tw: "tmp_write name data = None"
    and ag: "r_agents r agent_id = Some a"
    and ids: "ci_file_ids a = Inr ids"
    and fresh: "new_id \<notin> set ids"
    and rows: "rows = map (\<lambda>fid. listed_row False (r_files r fid) fid) ids"
    and ids': "ids' = (case existing_by_name lower rows (lower name) of
                         Some e \<Rightarrow> map (\<lambda>fid. if fid = file_id e then new_id else fid) ids
                       | None \<Rightarrow> ids @ [new_id])"
    and out: "out = upload_and_persist lower tmp_write r st agent_id name data new_id"
  shows "o_ctl out = Rerun"
    and "r_faults (o_remote out) = []"
    and "r_agents (o_remote out) agent_id = Some (update_body a ids')"
    and "r_files (o_remote out) new_id = Some \<lparr>m_filename = Val name, m_bytes = Some (length data)\<rparr>"
    and "\<forall>g\<in>set ids'. g \<noteq> new_id \<longrightarrow> r_files (o_remote out) g = r_files r g"
proof -
  let ?meta = "\<lparr>m_filename = Val name, m_bytes = Some (length data)\<rparr>"
  let ?st = "log (st\<lparr>ss_file_id := Some new_id\<rparr>)
            (''Uploaded new file_id='' @ new_id @ '' for '' @ quoted name @ ''.'')"
  from upload_file_nofault[where tmp_write=tmp_write and name=name and data=data and new_id=new_id, OF nf tw]
  obtain r0 where
    u: "upload_file tmp_write r new_id name data = (Inr new_id, r0)" and f0: "r_faults r0 = []"
    and a0: "r_agents r0 = r_agents r" and fl0: "r_files r0 = (r_files r)(new_id \<mapsto> ?meta)"
    by blast
  from upload_and_persist_Inr[OF u, of lower st agent_id] out
  have out0: "out = persist_in_ci lower r0 ?st agent_id name new_id" by simp
  from ag a0 have ag0: "r_agents r0 agent_id = Some a" by simp
  have rows0: "map (\<lambda>fid. listed_row False (r_files r0 fid) fid) ids = rows"
    unfolding rows using fresh fl0 by (intro map_cong) auto
  from list_agent_ci_files_nofault[OF f0 ag0 ids] rows0 obtain r1 where
    l: "list_agent_ci_files r0 agent_id = (Inr rows, r1)" and f1: "r_faults r1 = []"
    and a1: "r_agents r1 = r_agents r0" and fl1: "r_files r1 = r_files r0" by auto
  from ag0 a1 have ag1: "r_agents r1 agent_id = Some a" by simp
  have mids: "map file_id rows = ids" unfolding rows by (simp add: comp_def)
  from set_agent_ci_file_ids_nofault[OF f1 ag1, of ids'] obtain r2 where
    s: "set_agent_ci_file_ids r1 agent_id ids' = (Inr (update_body a ids'), r2)"
    and f2: "r_faults r2 = []"
    and a2: "r_agents r2 = (r_agents r1)(agent_id \<mapsto> update_body a ids')"
    and fl2: "r_files r2 = r_files r1" by blast
  have main: "o_ctl out = Rerun \<and> r_faults (o_remote out) = [] \<and>
       r_agents (o_remote out) agent_id = Some (update_body a ids') \<and>
       r_files (o_remote out) new_id = Some ?meta \<and>
       (\<forall>g\<in>set ids'. g \<noteq> new_id \<longrightarrow> r_files (o_remote out) g = r_files r g)"
  proof (cases "existing_by_name lower rows (lower name)")
    case None
    with ids' have i: "ids' = map file_id rows @ [new_id]" by (simp add: mids)
    from persist_append_ok[OF l None s[unfolded i], of ?st] out0
    have o: "o_remote out = r2" "o_ctl out = Rerun" by simp_all
    from o f2 a2 fl2 fl1 fl0 show ?thesis by simp
  next
    case (Some e)
    with ids' have i: "ids' = map (\<lambda>fid. if fid = file_id e then new_id else fid) (map file_id rows)"
      by (simp add: mids)
    from existing_by_name_Some[OF Some] mids have old: "file_id e \<in> set ids" by force
    with fresh have ne: "file_id e \<noteq> new_id" by auto
    from files_delete_nofault[OF f2, of "file_id e"] obtain d r3 where
      d: "files_delete r2 (file_id e) = (d, r3)" and f3: "r_faults r3 = []"
      and a3: "r_agents r3 = r_agents r2"
      and fl3: "\<forall>g. g \<noteq> file_id e \<longrightarrow> r_files r3 g = r_files r2 g" by blast
    from persist_overwrite_ok[OF l Some s[unfolded i] d, of ?st] out0
    have o: "o_remote out = r3" "o_ctl out = Rerun" by simp_all
    have keep: "\<forall>g\<in>set ids'. g \<noteq> new_id \<longrightarrow> r_files r3 g = r_files r g"
    proof (intro ballI impI)
      fix g assume g: "g \<in> set ids'" "g \<noteq> new_id"
      from g i mids have "g \<noteq> file_id e" by (auto split: if_splits)
      with fl3 fl2 fl1 fl0 g(2) show "r_files r3 g = r_files r g" by simp
    qed
    from fl3 ne fl2 fl1 fl0 have "r_files r3 new_id = Some ?meta" by simp
    with o f3 a3 a2 keep show ?thesis by simp
  qed
  from main show "o_ctl out = Rerun" "r_faults (o_remote out) = []"
    "r_agents (o_remote out) agent_id = Some (update_body a ids')"
    "r_files (o_remote out) new_id = Some ?meta"
    "\<forall>g\<in>set ids'. g \<noteq> new_id \<longrightarrow> r_files (o_remote out) g = r_files r g"
    by simp_all
qed

lemma files_delete_files:
  "files_delete r fid = (x, r') \<Longrightarrow> g \<noteq> fid \<Longrightarrow> r_files r' g = r_files r g"
  by (auto simp: files_delete_def Let_def split: prod.splits if_splits option.splits
           dest: http_call_frame)

text \<open>The files that a successful \<open>persist_in_ci\<close> leaves on the service, by branch.\<close>

lemma persist_in_ci_files:
  assumes l: "list_agent_ci_files r agent_id = (Inr ci_files, r1)"
    and ok: "o_ctl (persist_in_ci lower r st agent_id name new_id) = Rerun"
    and g: "case existing_by_name lower ci_files (lower name) of
              Some e \<Rightarrow> g \<noteq> file_id e | None \<Rightarrow> True"
  shows "r_files (o_remote (persist_in_ci lower r st agent_id name new_id)) g = r_files r g"
proof (cases rule: persist_in_ci_cases[where lower=lower and r=r and agent_id=agent_id and name=name and new_id=new_id])
  case (list_failed e r1)
  with l show ?thesis by simp
next
  case (overwrite_failed ci_files' r1' e ex r2)
  from persist_overwrite_failed[OF overwrite_failed, of st] ok show ?thesis by simp
next
  case (overwritten ci_files' r1' e body r2 d r3)
  from overwritten(1) l have eq: "ci_files' = ci_files" by simp
  from g overwritten(2) eq have ne: "g \<noteq> file_id e" by simp
  from files_delete_files[OF overwritten(4) ne] set_agent_ci_file_ids_Inr(3)[OF overwritten(3)]
    list_agent_ci_files_Inr(3)[OF overwritten(1)] persist_overwrite_ok[OF overwritten, of st]
  show ?thesis by simp
next
  case (append_failed ci_files' r1' ex r2)
  from persist_append_failed[OF append_failed, of st] ok show ?thesis by simp
next
  case (appended ci_files' r1' body r2)
  from set_agent_ci_file_ids_Inr(3)[OF appended(3)]
    list_agent_ci_files_Inr(3)[OF appended(1)] persist_append_ok[OF appended, of st]
  show ?thesis by simp
qed

lemma upload_and_persist_files:
  assumes l: "list_agent_ci_files (snd (upload_file tmp_write r new_id name data)) agent_id
                = (Inr ci_files, r1)"
    and ok: "o_ctl (upload_and_persist lower tmp_write r st agent_id name data new_id) = Rerun"
    and g: "case existing_by_name lower ci_files (lower name) of
              Some e \<Rightarrow> g \<noteq> file_id e | None \<Rightarrow> True"
  shows "r_files (o_remote (upload_and_persist lower tmp_write r st agent_id name data new_id)) g
           = r_files (snd (upload_file tmp_write r new_id name data)) g"
proof -
  from upload_and_persist_Rerun[OF ok] obtain r0 where
    u: "upload_file tmp_write r new_id name data = (Inr new_id, r0)" by blast
  from l u have l0: "list_agent_ci_files r0 agent_id = (Inr ci_files, r1)" by simp
  from ok upload_and_persist_Inr[OF u, of lower st agent_id]
  have ok0: "o_ctl (persist_in_ci lower r0
       (log (st\<lparr>ss_file_id := Some new_id\<rparr>)
            (''Uploaded new file_id='' @ new_id @ '' for '' @ quoted name @ ''.''))
       agent_id name new_id) = Rerun" by simp
  from persist_in_ci_files[OF l0 ok0 g] upload_and_persist_Inr[OF u, of lower st agent_id] u
  show ?thesis by simp
qed

lemma upload_and_persist_tmp_failed:
  "tmp_write name data = Some e \<Longrightarrow>
   upload_and_persist lower tmp_write r st agent_id name data new_id =
     \<lparr>o_remote = r, o_session = st, o_ui = [], o_ctl = Uncaught e\<rparr>"
  by (simp add: upload_and_persist_def upload_file_def)

lemma upload_remote_two:
  "o_ctl (upload_and_persist ascii_lower no_tmp_error remote_two session0 ''A'' ''data.csv'' ''x,y'' ''id3'') = Rerun"
  "r_faults (o_remote (upload_and_persist ascii_lower no_tmp_error remote_two session0 ''A'' ''data.csv'' ''x,y'' ''id3'')) = []"
  "r_agents (o_remote (upload_and_persist ascii_lower no_tmp_error remote_two session0 ''A'' ''data.csv'' ''x,y'' ''id3'')) ''A''
     = Some (update_body agent_two [''id1'', ''id3''])"
  "r_files (o_remote (upload_and_persist ascii_lower no_tmp_error remote_two session0 ''A'' ''data.csv'' ''x,y'' ''id3'')) ''id3''
     = Some \<lparr>m_filename = Val ''data.csv'', m_bytes = Some 3\<rparr>"
  "r_files (o_remote (upload_and_persist ascii_lower no_tmp_error remote_two session0 ''A'' ''data.csv'' ''x,y'' ''id3'')) ''id1''
     = Some \<lparr>m_filename = Val ''data.csv'', m_bytes = Some 10\<rparr>"
proof -
  let ?rows = "map (\<lambda>fid. listed_row False (r_files remote_two fid) fid) [''id1'', ''id2'']"
  have f: "r_faults remote_two = []" by (simp add: remote_two_def)
  have tw: "no_tmp_error ''data.csv'' ''x,y'' = None" by (simp add: no_tmp_error_def)
  have a: "r_agents remote_two ''A'' = Some agent_two" by (simp add: remote_two_def)
  have c: "ci_file_ids agent_two = Inr [''id1'', ''id2'']"
    by (simp add: ci_file_ids_def agent_two_def)
  have n: "''id3'' \<notin> set [''id1'', ''id2'']" by simp
  have k1: "name_key ascii_lower (listed_row False (r_files remote_two ''id1'') ''id1'') = ''data.csv''"
    by (simp add: remote_two_def listed_row_def meta_row_def name_key_def or_empty_def ascii_lower_ex3)
  have k2: "name_key ascii_lower (listed_row False (r_files remote_two ''id2'') ''id2'') = ''data.csv''"
    by (simp add: remote_two_def listed_row_def meta_row_def name_key_def or_empty_def ascii_lower_ex1)
  have e: "existing_by_name ascii_lower ?rows (ascii_lower ''data.csv'')
             = Some (listed_row False (r_files remote_two ''id2'') ''id2'')"
    by (simp add: existing_by_name_last k1 k2 ascii_lower_ex3)
  have i: "[''id1'', ''id3''] = (case existing_by_name ascii_lower ?rows (ascii_lower ''data.csv'') of
                         Some e \<Rightarrow> map (\<lambda>fid. if fid = file_id e then ''id3'' else fid) [''id1'', ''id2'']
                       | None \<Rightarrow> [''id1'', ''id2''] @ [''id3''])"
    using e by simp
  note res = upload_and_persist_nofault[where tmp_write=no_tmp_error and name="''data.csv''"
      and data="''x,y''" and st=session0, OF f tw a c n refl i refl]
  from res(1) show "o_ctl (upload_and_persist ascii_lower no_tmp_error remote_two session0 ''A'' ''data.csv'' ''x,y'' ''id3'') = Rerun" .
  from res(2) show "r_faults (o_remote (upload_and_persist ascii_lower no_tmp_error remote_two session0 ''A'' ''data.csv'' ''x,y'' ''id3'')) = []" .
  from res(3) show "r_agents (o_remote (upload_and_persist ascii_lower no_tmp_error remote_two session0 ''A'' ''data.csv'' ''x,y'' ''id3'')) ''A''
     = Some (update_body agent_two [''id1'', ''id3''])" .
  from res(4) show "r_files (o_remote (upload_and_persist ascii_lower no_tmp_error remote_two session0 ''A'' ''data.csv'' ''x,y'' ''id3'')) ''id3''
     = Some \<lparr>m_filename = Val ''data.csv'', m_bytes = Some 3\<rparr>" by simp
  from res(5) show "r_files (o_remote (upload_and_persist ascii_lower no_tmp_error remote_two session0 ''A'' ''data.csv'' ''x,y'' ''id3'')) ''id1''
     = Some \<lparr>m_filename = Val ''data.csv'', m_bytes = Some 10\<rparr>"
    by (simp add: remote_two_def)
qed

text \<open>
  C1, as stated, fails in two ways. First, when the list already holds two files whose
  names match case-insensitively: the dict of line 188 keeps the last row of a name, so
  only that row's id is replaced. With \<open>id1\<close> named \<open>data.csv\<close> and \<open>id2\<close> named \<open>DATA.CSV\<close>,
  uploading \<open>data.csv\<close> as \<open>id3\<close> leaves the list \<open>[id1, id3]\<close>, and the service holds both
  under the name \<open>data.csv\<close>. Second, when the listing cannot fetch the metadata of the
  attached file of that name: its row reads \<open>(unavailable)\<close>, nothing matches, and the new
  id is appended. With \<open>id1\<close> named \<open>data.csv\<close> and a failing fetch, uploading \<open>DATA.CSV\<close> as
  \<open>id2\<close> leaves the list \<open>[id1, id2]\<close>, both held under the name \<open>data.csv\<close>.
\<close>

theorem upload_duplicate_names_counterexample:
  "stored_ci_file_ids remote_two ''A'' = Some [''id1'', ''id2'']
   \<and> held_key ascii_lower remote_two ''id1'' = Some (ascii_lower ''data.csv'')
   \<and> held_key ascii_lower remote_two ''id2'' = Some (ascii_lower ''data.csv'')
   \<and> o_ctl (upload_and_persist ascii_lower no_tmp_error remote_two session0 ''A'' ''data.csv'' ''x,y'' ''id3'') = Rerun
   \<and> stored_ci_file_ids
        (o_remote (upload_and_persist ascii_lower no_tmp_error remote_two session0 ''A'' ''data.csv'' ''x,y'' ''id3'')) ''A''
      = Some [''id1'', ''id3'']
   \<and> held_key ascii_lower
        (o_remote (upload_and_persist ascii_lower no_tmp_error remote_two session0 ''A'' ''data.csv'' ''x,y'' ''id3'')) ''id1''
      = Some (ascii_lower ''data.csv'')
   \<and> held_key ascii_lower
        (o_remote (upload_and_persist ascii_lower no_tmp_error remote_two session0 ''A'' ''data.csv'' ''x,y'' ''id3'')) ''id3''
      = Some (ascii_lower ''data.csv'')
   \<and> ''id1'' \<noteq> ''id3''
   \<and> stored_ci_file_ids remote_fetch_down ''A'' = Some [''id1'']
   \<and> held_key ascii_lower remote_fetch_down ''id1'' = Some (ascii_lower ''DATA.CSV'')
   \<and> fst (list_agent_ci_files
            (snd (upload_file no_tmp_error remote_fetch_down ''id2'' ''DATA.CSV'' ''a,b'')) ''A'')
      = Inr [\<lparr>file_id = ''id1'', filename = Some ''(unavailable)'', bytes = None\<rparr>]
   \<and> o_ctl (upload_and_persist ascii_lower no_tmp_error remote_fetch_down session0 ''A'' ''DATA.CSV'' ''a,b'' ''id2'') = Rerun
   \<and> stored_ci_file_ids
        (o_remote (upload_and_persist ascii_lower no_tmp_error remote_fetch_down session0 ''A'' ''DATA.CSV'' ''a,b'' ''id2'')) ''A''
      = Some [''id1'', ''id2'']
   \<and> held_key ascii_lower
        (o_remote (upload_and_persist ascii_lower no_tmp_error remote_fetch_down session0 ''A'' ''DATA.CSV'' ''a,b'' ''id2'')) ''id1''
      = Some (ascii_lower ''DATA.CSV'')
   \<and> held_key ascii_lower
        (o_remote (upload_and_persist ascii_lower no_tmp_error remote_fetch_down session0 ''A'' ''DATA.CSV'' ''a,b'' ''id2'')) ''id2''
      = Some (ascii_lower ''DATA.CSV'')
   \<and> ''id1'' \<noteq> ''id2''"
proof -
  let ?out = "upload_and_persist ascii_lower no_tmp_error remote_two session0 ''A'' ''data.csv'' ''x,y'' ''id3''"
  let ?out' = "upload_and_persist ascii_lower no_tmp_error remote_fetch_down session0 ''A'' ''DATA.CSV'' ''a,b'' ''id2''"
  have a: "stored_ci_file_ids remote_two ''A'' = Some [''id1'', ''id2'']"
    by (simp add: stored_ci_file_ids_def remote_two_def agent_two_def ci_file_ids_def)
  have a1: "held_key ascii_lower remote_two ''id1'' = Some (ascii_lower ''data.csv'')"
    by (rule held_key_uploaded) (simp add: remote_two_def)
  have a2: "held_key ascii_lower remote_two ''id2'' = Some (ascii_lower ''data.csv'')"
    unfolding ascii_lower_ex3 by (rule held_key_data_csv(2)) (simp add: remote_two_def)
  from upload_remote_two(3)
  have b: "stored_ci_file_ids (o_remote ?out) ''A'' = Some [''id1'', ''id3'']"
    by (simp add: stored_ci_file_ids_def)
  have c1: "held_key ascii_lower (o_remote ?out) ''id1'' = Some (ascii_lower ''data.csv'')"
    by (rule held_key_uploaded) (rule upload_remote_two(5))
  have c3: "held_key ascii_lower (o_remote ?out) ''id3'' = Some (ascii_lower ''data.csv'')"
    by (rule held_key_uploaded) (rule upload_remote_two(4))
  have d: "stored_ci_file_ids remote_fetch_down ''A'' = Some [''id1'']"
    by (simp add: stored_ci_file_ids_def remote_fetch_down_def remote0_def agent0_def ci_file_ids_def)
  have d1: "held_key ascii_lower remote_fetch_down ''id1'' = Some (ascii_lower ''DATA.CSV'')"
    unfolding ascii_lower_ex1 by (rule held_key_data_csv(1)) (simp add: remote_fetch_down_def remote0_def)
  have e1: "held_key ascii_lower (o_remote ?out') ''id1'' = Some (ascii_lower ''DATA.CSV'')"
    unfolding ascii_lower_ex1 by (rule held_key_data_csv(1)) (simp add: upload_remote_fetch_down(3) remote0_def)
  have e2: "held_key ascii_lower (o_remote ?out') ''id2'' = Some (ascii_lower ''DATA.CSV'')"
    by (rule held_key_uploaded) (simp add: upload_remote_fetch_down(3))
  have ne: "''id1'' \<noteq> ''id3''" "''id1'' \<noteq> ''id2''" by simp_all
  from a a1 a2 upload_remote_two(1) b c1 c3 ne(1) d d1 upload_remote_fetch_down(4)
    upload_remote_fetch_down(1) upload_remote_fetch_down(2) e1 e2 ne(2)
  show ?thesis by (intro conjI)
qed

text \<open>
  C1, amended. Take the moment at which the handler lists the agent's attached files: the
  file has been uploaded, the agent not yet updated. Let the listing show a file under
  the uploaded file's case-insensitive filename exactly when the service holds it under
  that name (no such file is shown as \<open>(unavailable)\<close>), and let at most one id of the list
  be held under that name. Then, after an upload-and-persist that completes, no id of the
  agent's list other than the new one is held under that name, so at most one is; the
  operation has replaced an id that was held under that name or has appended the new id;
  and when the new id was not in the list before, it is in the list now and the uploaded
  file is held under it: exactly one id for the name. Whether the deletion of the
  superseded file fails makes no difference.
\<close>

theorem upload_keeps_one_id_per_name:
  assumes "list_agent_ci_files (snd (upload_file tmp_write r new_id name data)) agent_id
             = (Inr ci_files, r1)"
    and "\<forall>e\<in>set ci_files.
           (name_key lower e = lower name)
             = (held_key lower (snd (upload_file tmp_write r new_id name data)) (file_id e)
                  = Some (lower name))"
    and "\<forall>e\<in>set ci_files. \<forall>e'\<in>set ci_files.
           held_key lower (snd (upload_file tmp_write r new_id name data)) (file_id e)
             = Some (lower name)
           \<and> held_key lower (snd (upload_file tmp_write r new_id name data)) (file_id e')
             = Some (lower name)
           \<longrightarrow> file_id e = file_id e'"
    and "o_ctl (upload_and_persist lower tmp_write r st agent_id name data new_id) = Rerun"
  shows "\<exists>ids ids'.
           stored_ci_file_ids r agent_id = Some ids
         \<and> ids = map file_id ci_files
         \<and> stored_ci_file_ids
              (o_remote (upload_and_persist lower tmp_write r st agent_id name data new_id)) agent_id
             = Some ids'
         \<and> {g \<in> set ids'.
              held_key lower
                (o_remote (upload_and_persist lower tmp_write r st agent_id name data new_id)) g
                = Some (lower name)} \<subseteq> {new_id}
         \<and> (new_id \<notin> set ids \<longrightarrow>
              {g \<in> set ids'.
                 held_key lower
                   (o_remote (upload_and_persist lower tmp_write r st agent_id name data new_id)) g
                   = Some (lower name)} = {new_id})
         \<and> (ids' = ids @ [new_id]
            \<or> (\<exists>old\<in>set ids.
                  held_key lower (snd (upload_file tmp_write r new_id name data)) old
                    = Some (lower name)
                \<and> ids' = map (\<lambda>fid. if fid = old then new_id else fid) ids))"
proof -
  let ?out = "upload_and_persist lower tmp_write r st agent_id name data new_id"
  let ?r0 = "snd (upload_file tmp_write r new_id name data)"
  let ?k = "lower name"
  let ?ids = "map file_id ci_files"
  let ?meta = "\<lparr>m_filename = Val name, m_bytes = Some (length data)\<rparr>"
  note l = assms(1) and shown = assms(2) and one = assms(3) and ok = assms(4)
  from upload_and_persist_Rerun[OF ok] obtain r0 where
    u: "upload_file tmp_write r new_id name data = (Inr new_id, r0)" by blast
  from upload_file_Inr[OF u] u have "r_files ?r0 new_id = Some ?meta" by simp
  then have new0: "held_key lower ?r0 new_id = Some ?k" by (rule held_key_uploaded)
  note st = upload_and_persist_stored[OF l ok]
  note fl = upload_and_persist_files[OF l ok]
  show ?thesis
  proof (cases "existing_by_name lower ci_files ?k")
    case None
    let ?ids' = "?ids @ [new_id]"
    from st(2) None have after: "stored_ci_file_ids (o_remote ?out) agent_id = Some ?ids'" by simp
    from fl None have same: "\<And>g. r_files (o_remote ?out) g = r_files ?r0 g" by simp
    have held: "\<And>g. held_key lower (o_remote ?out) g = held_key lower ?r0 g"
      by (rule held_key_cong) (rule same)
    have others: "\<forall>g\<in>set ?ids. held_key lower (o_remote ?out) g \<noteq> Some ?k"
    proof
      fix g assume "g \<in> set ?ids"
      then obtain e where e: "e \<in> set ci_files" "file_id e = g" by auto
      from None e(1) have "name_key lower e \<noteq> ?k" by (simp add: existing_by_name_None)
      with shown e show "held_key lower (o_remote ?out) g \<noteq> Some ?k" by (auto simp: held)
    qed
    have newh: "held_key lower (o_remote ?out) new_id = Some ?k" by (simp add: held new0)
    from others newh
    have eq: "{g \<in> set ?ids'. held_key lower (o_remote ?out) g = Some ?k} = {new_id}" by auto
    from st(1) after eq show ?thesis by auto
  next
    case (Some e)
    let ?ids' = "map (\<lambda>fid. if fid = file_id e then new_id else fid) ?ids"
    from existing_by_name_Some[OF Some] have e: "e \<in> set ci_files" "name_key lower e = ?k"
      by simp_all
    from shown e have eh: "held_key lower ?r0 (file_id e) = Some ?k" by auto
    from e(1) have ein: "file_id e \<in> set ?ids" by simp
    from st(2) Some have after: "stored_ci_file_ids (o_remote ?out) agent_id = Some ?ids'" by simp
    from fl Some have same: "\<And>g. g \<noteq> file_id e \<Longrightarrow> r_files (o_remote ?out) g = r_files ?r0 g"
      by simp
    have held: "\<And>g. g \<noteq> file_id e \<Longrightarrow> held_key lower (o_remote ?out) g = held_key lower ?r0 g"
      by (rule held_key_cong) (rule same)
    have sub: "{g \<in> set ?ids'. held_key lower (o_remote ?out) g = Some ?k} \<subseteq> {new_id}"
    proof
      fix g assume "g \<in> {g \<in> set ?ids'. held_key lower (o_remote ?out) g = Some ?k}"
      then have g: "g \<in> set ?ids'" and h: "held_key lower (o_remote ?out) g = Some ?k" by simp_all
      have "g = new_id"
      proof (rule ccontr)
        assume n: "g \<noteq> new_id"
        with g have gi: "g \<in> set ?ids" and go: "g \<noteq> file_id e" by (auto split: if_splits)
        from gi obtain e' where e': "e' \<in> set ci_files" "file_id e' = g" by auto
        from h held[OF go] have "held_key lower ?r0 g = Some ?k" by simp
        with one e(1) e' eh have "file_id e' = file_id e" by blast
        with e'(2) go show False by simp
      qed
      then show "g \<in> {new_id}" by simp
    qed
    have sup: "new_id \<notin> set ?ids \<longrightarrow>
                 {g \<in> set ?ids'. held_key lower (o_remote ?out) g = Some ?k} = {new_id}"
    proof
      assume fresh: "new_id \<notin> set ?ids"
      with ein have ne: "new_id \<noteq> file_id e" by auto
      from held[OF ne] new0 have nh: "held_key lower (o_remote ?out) new_id = Some ?k" by simp
      from ein have "new_id \<in> set ?ids'" by force
      with nh sub show "{g \<in> set ?ids'. held_key lower (o_remote ?out) g = Some ?k} = {new_id}"
        by blast
    qed
    have how: "\<exists>old\<in>set ?ids. held_key lower ?r0 old = Some ?k
                 \<and> ?ids' = map (\<lambda>fid. if fid = old then new_id else fid) ?ids"
      using ein eh by blast
    from st(1) after sub sup how show ?thesis by blast
  qed
qed

lemma held_key_remote0_after_upload:
  "new_id \<noteq> ''id1'' \<Longrightarrow>
   held_key ascii_lower (snd (upload_file no_tmp_error remote0 new_id name data)) ''id1''
     = Some ''data.csv''"
  by (rule held_key_data_csv(1))
     (simp add: upload_file_def no_tmp_error_def files_upload_def http_call_def remote0_def)

theorem upload_keeps_one_id_per_name_witness:
  "\<exists>ids ids'.
     stored_ci_file_ids remote0 ''A'' = Some ids
   \<and> ids = map file_id [row1]
   \<and> stored_ci_file_ids
        (o_remote (upload_and_persist ascii_lower no_tmp_error remote0 session0 ''A'' ''DATA.CSV'' ''a,b'' ''id2'')) ''A''
       = Some ids'
   \<and> {g \<in> set ids'.
        held_key ascii_lower
          (o_remote (upload_and_persist ascii_lower no_tmp_error remote0 session0 ''A'' ''DATA.CSV'' ''a,b'' ''id2'')) g
          = Some (ascii_lower ''DATA.CSV'')} \<subseteq> {''id2''}
   \<and> (''id2'' \<notin> set ids \<longrightarrow>
        {g \<in> set ids'.
           held_key ascii_lower
             (o_remote (upload_and_persist ascii_lower no_tmp_error remote0 session0 ''A'' ''DATA.CSV'' ''a,b'' ''id2'')) g
             = Some (ascii_lower ''DATA.CSV'')} = {''id2''})
   \<and> (ids' = ids @ [''id2'']
      \<or> (\<exists>old\<in>set ids.
            held_key ascii_lower (snd (upload_file no_tmp_error remote0 ''id2'' ''DATA.CSV'' ''a,b'')) old
              = Some (ascii_lower ''DATA.CSV'')
          \<and> ids' = map (\<lambda>fid. if fid = old then ''id2'' else fid) ids))"
proof -
  have l: "list_agent_ci_files (snd (upload_file no_tmp_error remote0 ''id2'' ''DATA.CSV'' ''a,b'')) ''A'' =
     (Inr [row1],
      remote0\<lparr>r_files := (r_files remote0)(''id2'' \<mapsto> \<lparr>m_filename = Val ''DATA.CSV'', m_bytes = Some (length ''a,b'')\<rparr>),
              r_calls := 3\<rparr>)"
    by (rule list_after_upload_remote0) simp
  have h: "held_key ascii_lower (snd (upload_file no_tmp_error remote0 ''id2'' ''DATA.CSV'' ''a,b'')) ''id1''
             = Some ''data.csv''"
    by (rule held_key_remote0_after_upload) simp
  have i: "file_id row1 = ''id1''" by (simp add: row1_def)
  have sh: "\<forall>e\<in>set [row1].
           (name_key ascii_lower e = ascii_lower ''DATA.CSV'')
             = (held_key ascii_lower (snd (upload_file no_tmp_error remote0 ''id2'' ''DATA.CSV'' ''a,b'')) (file_id e)
                  = Some (ascii_lower ''DATA.CSV''))"
    by (simp add: name_key_row1 ascii_lower_ex1 i h)
  have o: "\<forall>e\<in>set [row1]. \<forall>e'\<in>set [row1].
           held_key ascii_lower (snd (upload_file no_tmp_error remote0 ''id2'' ''DATA.CSV'' ''a,b'')) (file_id e)
             = Some (ascii_lower ''DATA.CSV'')
           \<and> held_key ascii_lower (snd (upload_file no_tmp_error remote0 ''id2'' ''DATA.CSV'' ''a,b'')) (file_id e')
             = Some (ascii_lower ''DATA.CSV'')
           \<longrightarrow> file_id e = file_id e'" by simp
  from upload_keeps_one_id_per_name[OF l sh o upload_DATA_remote0]
  show ?thesis .
qed

subsection \<open>Deleting the superseded file is best effort\<close>

text \<open>
  C7. In an upload that overwrites an existing filename, once the update of the agent
  has gone through, the deletion of the superseded file decides nothing: whatever
  \<open>files_delete\<close> answers (\<open>d\<close> is \<open>Inl\<close> when it raises), the handler reports the same
  success, shows no error, logs the same lines and goes on to rerun, and the agent's
  tool-resources id list is the replacement list. The example runs the same upload on a
  service where the delete raises and on one where it succeeds.
\<close>

theorem superseded_delete_is_best_effort:
  assumes "upload_file tmp_write r new_id name data = (Inr new_id, r0)"
    and "list_agent_ci_files r0 agent_id = (Inr ci_files, r1)"
    and "existing_by_name lower ci_files (lower name) = Some e"
    and "set_agent_ci_file_ids r1 agent_id
           (map (\<lambda>fid. if fid = file_id e then new_id else fid) (map file_id ci_files)) = (Inr body, r2)"
  shows "\<forall>d r3. files_delete r2 (file_id e) = (d, r3) \<longrightarrow>
           upload_and_persist lower tmp_write r st agent_id name data new_id =
             \<lparr>o_remote = r3,
              o_session = log (log (st\<lparr>ss_file_id := Some new_id\<rparr>)
                                 (''Uploaded new file_id='' @ new_id @ '' for '' @ quoted name @ ''.''))
                            (''Overwritten: '' @ quoted name @ '' old_id='' @ file_id e
                             @ '' -> new_id='' @ new_id @ ''.''),
              o_ui = [St_success (''File '' @ quoted name @ '' has been overwritten in Code Interpreter.'')],
              o_ctl = Rerun\<rparr>
         \<and> r_agents r3 = r_agents r2
         \<and> stored_ci_file_ids r3 agent_id =
             Some (map (\<lambda>fid. if fid = file_id e then new_id else fid) (map file_id ci_files))"
proof (intro allI impI)
  fix d r3
  assume d: "files_delete r2 (file_id e) = (d, r3)"
  from persist_overwrite_ok[OF assms(2,3,4) d] upload_and_persist_Inr[OF assms(1), of lower st agent_id]
  have a: "upload_and_persist lower tmp_write r st agent_id name data new_id =
             \<lparr>o_remote = r3,
              o_session = log (log (st\<lparr>ss_file_id := Some new_id\<rparr>)
                                 (''Uploaded new file_id='' @ new_id @ '' for '' @ quoted name @ ''.''))
                            (''Overwritten: '' @ quoted name @ '' old_id='' @ file_id e
                             @ '' -> new_id='' @ new_id @ ''.''),
              o_ui = [St_success (''File '' @ quoted name @ '' has been overwritten in Code Interpreter.'')],
              o_ctl = Rerun\<rparr>" by simp
  from files_delete_agents[OF d] have b: "r_agents r3 = r_agents r2" .
  from stored_after_set[OF assms(4)] stored_cong[OF b]
  have c: "stored_ci_file_ids r3 agent_id =
             Some (map (\<lambda>fid. if fid = file_id e then new_id else fid) (map file_id ci_files))"
    by simp
  from a b c show "upload_and_persist lower tmp_write r st agent_id name data new_id =
             \<lparr>o_remote = r3,
              o_session = log (log (st\<lparr>ss_file_id := Some new_id\<rparr>)
                                 (''Uploaded new file_id='' @ new_id @ '' for '' @ quoted name @ ''.''))
                            (''Overwritten: '' @ quoted name @ '' old_id='' @ file_id e
                             @ '' -> new_id='' @ new_id @ ''.''),
              o_ui = [St_success (''File '' @ quoted name @ '' has been overwritten in Code Interpreter.'')],
              o_ctl = Rerun\<rparr>
         \<and> r_agents r3 = r_agents r2
         \<and> stored_ci_file_ids r3 agent_id =
             Some (map (\<lambda>fid. if fid = file_id e then new_id else fid) (map file_id ci_files))"
    by simp
qed

theorem superseded_delete_is_best_effort_witness:
  "fst (files_delete
         (remote_delete_down\<lparr>r_agents := [''A'' \<mapsto> update_body agent0 [''id2'']],
            r_files := (r_files remote0)(''id2'' \<mapsto> \<lparr>m_filename = Val ''DATA.CSV'', m_bytes = Some (length ''a,b'')\<rparr>),
            r_faults := [True], r_calls := 5\<rparr>) ''id1'') = Inl RequestError
   \<and> fst (files_delete
         (remote0\<lparr>r_agents := [''A'' \<mapsto> update_body agent0 [''id2'']],
            r_files := (r_files remote0)(''id2'' \<mapsto> \<lparr>m_filename = Val ''DATA.CSV'', m_bytes = Some (length ''a,b'')\<rparr>),
            r_calls := 5\<rparr>) ''id1'') = Inr ()
   \<and> o_ctl (upload_and_persist ascii_lower no_tmp_error remote_delete_down session0 ''A'' ''DATA.CSV'' ''a,b'' ''id2'') = Rerun
   \<and> o_ui (upload_and_persist ascii_lower no_tmp_error remote_delete_down session0 ''A'' ''DATA.CSV'' ''a,b'' ''id2'')
        = [St_success (''File '' @ quoted ''DATA.CSV'' @ '' has been overwritten in Code Interpreter.'')]
   \<and> stored_ci_file_ids
        (o_remote (upload_and_persist ascii_lower no_tmp_error remote_delete_down session0 ''A'' ''DATA.CSV'' ''a,b'' ''id2'')) ''A''
        = Some [''id2'']
   \<and> o_ctl (upload_and_persist ascii_lower no_tmp_error remote0 session0 ''A'' ''DATA.CSV'' ''a,b'' ''id2'') = Rerun
   \<and> o_ui (upload_and_persist ascii_lower no_tmp_error remote0 session0 ''A'' ''DATA.CSV'' ''a,b'' ''id2'')
        = [St_success (''File '' @ quoted ''DATA.CSV'' @ '' has been overwritten in Code Interpreter.'')]
   \<and> stored_ci_file_ids
        (o_remote (upload_and_persist ascii_lower no_tmp_error remote0 session0 ''A'' ''DATA.CSV'' ''a,b'' ''id2'')) ''A''
        = Some [''id2'']
   \<and> o_session (upload_and_persist ascii_lower no_tmp_error remote_delete_down session0 ''A'' ''DATA.CSV'' ''a,b'' ''id2'')
        = o_session (upload_and_persist ascii_lower no_tmp_error remote0 session0 ''A'' ''DATA.CSV'' ''a,b'' ''id2'')"
proof -
  let ?files = "(r_files remote0)(''id2'' \<mapsto> \<lparr>m_filename = Val ''DATA.CSV'', m_bytes = Some (length ''a,b'')\<rparr>)"
  let ?agents = "[''A'' \<mapsto> update_body agent0 [''id2'']]"
  let ?r0 = "remote_delete_down\<lparr>r_files := ?files,
            r_faults := [False, False, False, False, True], r_calls := 1\<rparr>"
  let ?r1 = "remote_delete_down\<lparr>r_files := ?files, r_faults := [False, False, True], r_calls := 3\<rparr>"
  let ?r2 = "remote_delete_down\<lparr>r_agents := ?agents, r_files := ?files, r_faults := [True], r_calls := 5\<rparr>"
  let ?r3 = "remote_delete_down\<lparr>r_agents := ?agents, r_files := ?files, r_faults := [], r_calls := 6\<rparr>"
  let ?q0 = "remote0\<lparr>r_files := ?files, r_calls := 1\<rparr>"
  let ?q1 = "remote0\<lparr>r_files := ?files, r_calls := 3\<rparr>"
  let ?q2 = "remote0\<lparr>r_agents := ?agents, r_files := ?files, r_calls := 5\<rparr>"
  let ?q3 = "remote0\<lparr>r_agents := ?agents, r_files := ?files(''id1'' := None), r_calls := 6\<rparr>"
  have m: "existing_by_name ascii_lower [row1] (ascii_lower ''DATA.CSV'') = Some row1"
    by (simp add: existing_by_name_last name_key_row1 ascii_lower_ex1)
  have u: "upload_file no_tmp_error remote_delete_down ''id2'' ''DATA.CSV'' ''a,b'' = (Inr ''id2'', ?r0)"
    by (simp add: upload_file_def no_tmp_error_def files_upload_def http_call_def remote_delete_down_def remote0_def)
  have l: "list_agent_ci_files ?r0 ''A'' = (Inr [row1], ?r1)"
    by (simp add: list_agent_ci_files_def get_agent_def files_get_rest_def http_call_def
          ci_file_ids_def meta_row_def remote_delete_down_def remote0_def agent0_def row1_def)
  have s: "set_agent_ci_file_ids ?r1 ''A''
             (map (\<lambda>fid. if fid = file_id row1 then ''id2'' else fid) (map file_id [row1]))
           = (Inr (update_body agent0 [''id2'']), ?r2)"
    by (simp add: set_agent_ci_file_ids_def get_agent_def http_call_def
          remote_delete_down_def remote0_def row1_def Let_def)
  have d: "files_delete ?r2 (file_id row1) = (Inl RequestError, ?r3)"
    by (simp add: files_delete_def http_call_def remote_delete_down_def remote0_def row1_def)
  have u': "upload_file no_tmp_error remote0 ''id2'' ''DATA.CSV'' ''a,b'' = (Inr ''id2'', ?q0)"
    by (simp add: upload_file_def no_tmp_error_def files_upload_def http_call_def remote0_def)
  have l': "list_agent_ci_files ?q0 ''A'' = (Inr [row1], ?q1)"
    by (simp add: list_agent_ci_files_def get_agent_def files_get_rest_def http_call_def
          ci_file_ids_def meta_row_def remote0_def agent0_def row1_def)
  have s': "set_agent_ci_file_ids ?q1 ''A''
             (map (\<lambda>fid. if fid = file_id row1 then ''id2'' else fid) (map file_id [row1]))
           = (Inr (update_body agent0 [''id2'']), ?q2)"
    by (simp add: set_agent_ci_file_ids_def get_agent_def http_call_def
          remote0_def row1_def Let_def)
  have d': "files_delete ?q2 (file_id row1) = (Inr (), ?q3)"
    by (simp add: files_delete_def http_call_def remote0_def row1_def)
  from superseded_delete_is_best_effort[OF u l m s, of session0, THEN spec, THEN spec, THEN mp, OF d]
  have raised: "o_ctl (upload_and_persist ascii_lower no_tmp_error remote_delete_down session0 ''A'' ''DATA.CSV'' ''a,b'' ''id2'') = Rerun"
    "o_ui (upload_and_persist ascii_lower no_tmp_error remote_delete_down session0 ''A'' ''DATA.CSV'' ''a,b'' ''id2'')
        = [St_success (''File '' @ quoted ''DATA.CSV'' @ '' has been overwritten in Code Interpreter.'')]"
    "stored_ci_file_ids
        (o_remote (upload_and_persist ascii_lower no_tmp_error remote_delete_down session0 ''A'' ''DATA.CSV'' ''a,b'' ''id2'')) ''A''
        = Some [''id2'']"
    "o_session (upload_and_persist ascii_lower no_tmp_error remote_delete_down session0 ''A'' ''DATA.CSV'' ''a,b'' ''id2'')
        = log (log (session0\<lparr>ss_file_id := Some ''id2''\<rparr>)
                                 (''Uploaded new file_id='' @ ''id2'' @ '' for '' @ quoted ''DATA.CSV'' @ ''.''))
                            (''Overwritten: '' @ quoted ''DATA.CSV'' @ '' old_id='' @ file_id row1
                             @ '' -> new_id='' @ ''id2'' @ ''.'')"
    by (simp_all add: row1_def)
  from superseded_delete_is_best_effort[OF u' l' m s', of session0, THEN spec, THEN spec, THEN mp, OF d']
  have deleted: "o_ctl (upload_and_persist ascii_lower no_tmp_error remote0 session0 ''A'' ''DATA.CSV'' ''a,b'' ''id2'') = Rerun"
    "o_ui (upload_and_persist ascii_lower no_tmp_error remote0 session0 ''A'' ''DATA.CSV'' ''a,b'' ''id2'')
        = [St_success (''File '' @ quoted ''DATA.CSV'' @ '' has been overwritten in Code Interpreter.'')]"
    "stored_ci_file_ids
        (o_remote (upload_and_persist ascii_lower no_tmp_error remote0 session0 ''A'' ''DATA.CSV'' ''a,b'' ''id2'')) ''A''
        = Some [''id2'']"
    "o_session (upload_and_persist ascii_lower no_tmp_error remote0 session0 ''A'' ''DATA.CSV'' ''a,b'' ''id2'')
        = log (log (session0\<lparr>ss_file_id := Some ''id2''\<rparr>)
                                 (''Uploaded new file_id='' @ ''id2'' @ '' for '' @ quoted ''DATA.CSV'' @ ''.''))
                            (''Overwritten: '' @ quoted ''DATA.CSV'' @ '' old_id='' @ file_id row1
                             @ '' -> new_id='' @ ''id2'' @ ''.'')"
    by (simp_all add: row1_def)
  from d d' have dd: "fst (files_delete ?r2 ''id1'') = Inl RequestError"
    "fst (files_delete ?q2 ''id1'') = Inr ()" by (simp_all add: row1_def)
  from dd raised deleted show ?thesis by simp
qed

subsection \<open>Missing settings\<close>

lemma py_strip_Nil [simp]: "py_strip cs [] = []"
  by (simp add: py_strip_def py_lstrip_def py_rstrip_def)

lemma trimmed_setting_absent:
  "strip [] = [] \<Longrightarrow> env key = None \<Longrightarrow> trimmed_setting strip env key = []"
  by (simp add: trimmed_setting_def)

lemma read_setting_required:
  "read_setting strip env key True [] =
     (if trimmed_setting strip env key = []
      then Inl (St_error (''Missing setting: '' @ key @ ''. Add it to .env or environment variables.''))
      else Inr (trimmed_setting strip env key))"
  by (simp add: read_setting_def trimmed_setting_def Let_def)

text \<open>
  C8. When a required setting is absent, or its value is empty after the trimming of
  \<open>read_setting\<close> (\<open>strip()\<close>, then double quotes, then single quotes), \<open>read_setting\<close>
  answers with the message that names the setting, and the script stops there with that
  message: the rest of the script, the only part that calls the service, is not entered,
  and the service is as it was. The endpoint is read first; the agent id is reached only
  when the endpoint is there. This holds whatever \<open>strip()\<close> removes; for an absent
  setting it uses that \<open>strip()\<close> of the empty string is the empty string. (The
  \<open>rstrip("/")\<close> of line 22 comes after the check and is no part of it.)
\<close>

theorem missing_setting_stops_before_any_call:
  "((strip [] = [] \<and> env ''PROJECT_ENDPOINT'' = None)
      \<or> trimmed_setting strip env ''PROJECT_ENDPOINT'' = [] \<longrightarrow>
      read_setting strip env ''PROJECT_ENDPOINT'' True [] =
        Inl (St_error ''Missing setting: PROJECT_ENDPOINT. Add it to .env or environment variables.'')
      \<and> app strip env page r =
        ([St_error ''Missing setting: PROJECT_ENDPOINT. Add it to .env or environment variables.''],
         Stop, r))
   \<and> (trimmed_setting strip env ''PROJECT_ENDPOINT'' \<noteq> [] \<and>
       ((strip [] = [] \<and> env ''ORCHESTRATOR_AGENT_ID'' = None)
          \<or> trimmed_setting strip env ''ORCHESTRATOR_AGENT_ID'' = []) \<longrightarrow>
      read_setting strip env ''ORCHESTRATOR_AGENT_ID'' True [] =
        Inl (St_error ''Missing setting: ORCHESTRATOR_AGENT_ID. Add it to .env or environment variables.'')
      \<and> app strip env page r =
        ([St_error ''Missing setting: ORCHESTRATOR_AGENT_ID. Add it to .env or environment variables.''],
         Stop, r))"
proof (intro conjI impI)
  assume "(strip [] = [] \<and> env ''PROJECT_ENDPOINT'' = None)
            \<or> trimmed_setting strip env ''PROJECT_ENDPOINT'' = []"
  with trimmed_setting_absent[of strip env "''PROJECT_ENDPOINT''"]
  have e: "trimmed_setting strip env ''PROJECT_ENDPOINT'' = []" by auto
  then show "read_setting strip env ''PROJECT_ENDPOINT'' True [] =
        Inl (St_error ''Missing setting: PROJECT_ENDPOINT. Add it to .env or environment variables.'')"
    by (simp add: read_setting_required)
  then show "app strip env page r =
        ([St_error ''Missing setting: PROJECT_ENDPOINT. Add it to .env or environment variables.''],
         Stop, r)"
    by (simp add: app_def)
next
  assume a: "trimmed_setting strip env ''PROJECT_ENDPOINT'' \<noteq> [] \<and>
       ((strip [] = [] \<and> env ''ORCHESTRATOR_AGENT_ID'' = None)
          \<or> trimmed_setting strip env ''ORCHESTRATOR_AGENT_ID'' = [])"
  with trimmed_setting_absent[of strip env "''ORCHESTRATOR_AGENT_ID''"]
  have e: "trimmed_setting strip env ''ORCHESTRATOR_AGENT_ID'' = []" by auto
  from a have p: "read_setting strip env ''PROJECT_ENDPOINT'' True [] =
      Inr (trimmed_setting strip env ''PROJECT_ENDPOINT'')"
    by (simp add: read_setting_required)
  from e show o: "read_setting strip env ''ORCHESTRATOR_AGENT_ID'' True [] =
        Inl (St_error ''Missing setting: ORCHESTRATOR_AGENT_ID. Add it to .env or environment variables.'')"
    by (simp add: read_setting_required)
  from p o show "app strip env page r =
        ([St_error ''Missing setting: ORCHESTRATOR_AGENT_ID. Add it to .env or environment variables.''],
         Stop, r)"
    by (simp add: app_def)
qed

lemma ascii_strip_Nil: "ascii_strip [] = []"
  by (simp add: ascii_strip_def)

lemma trimmed_blank_endpoint:
  "trimmed_setting ascii_strip env_blank_endpoint ''PROJECT_ENDPOINT'' = []"
  by (simp add: trimmed_setting_def env_blank_endpoint_def ascii_strip_def py_strip_def
        py_lstrip_def py_rstrip_def ascii_whitespace_def)

lemma trimmed_no_agent:
  "trimmed_setting ascii_strip env_no_agent ''PROJECT_ENDPOINT'' = ''https://host/api/projects/p/''"
  "env_no_agent ''ORCHESTRATOR_AGENT_ID'' = None"
  by (simp_all add: trimmed_setting_def env_no_agent_def ascii_strip_def py_strip_def
        py_lstrip_def py_rstrip_def ascii_whitespace_def)

theorem missing_setting_stops_before_any_call_witness:
  "app ascii_strip env_blank_endpoint page_fetching_agent remote0 =
     ([St_error ''Missing setting: PROJECT_ENDPOINT. Add it to .env or environment variables.''],
      Stop, remote0)
   \<and> app ascii_strip env_no_agent page_fetching_agent remote0 =
     ([St_error ''Missing setting: ORCHESTRATOR_AGENT_ID. Add it to .env or environment variables.''],
      Stop, remote0)
   \<and> r_calls remote0 = 0
   \<and> r_calls (snd (snd (page_fetching_agent settings0 remote0))) = 1"
proof -
  from missing_setting_stops_before_any_call[of ascii_strip env_blank_endpoint page_fetching_agent remote0]
    trimmed_blank_endpoint
  have a: "app ascii_strip env_blank_endpoint page_fetching_agent remote0 =
     ([St_error ''Missing setting: PROJECT_ENDPOINT. Add it to .env or environment variables.''],
      Stop, remote0)" by simp
  from missing_setting_stops_before_any_call[of ascii_strip env_no_agent page_fetching_agent remote0]
    trimmed_no_agent ascii_strip_Nil
  have b: "app ascii_strip env_no_agent page_fetching_agent remote0 =
     ([St_error ''Missing setting: ORCHESTRATOR_AGENT_ID. Add it to .env or environment variables.''],
      Stop, remote0)" by simp
  have c: "r_calls (snd (snd (page_fetching_agent settings0 remote0))) = 1"
    by (simp add: page_fetching_agent_def get_agent_def http_call_def remote0_def)
  from a b c show ?thesis by (simp add: remote0_def)
qed

subsection \<open>The Run button: polling and output\<close>

lemma poll_run_exit:
  "st_value status \<notin> set polling_statuses \<Longrightarrow>
     poll_run get k slept status = Some (Inr status, k, slept)"
  by (subst poll_run.simps) simp

lemma poll_run_step:
  "st_value status \<in> set polling_statuses \<Longrightarrow> get k = Inr s \<Longrightarrow>
     poll_run get k slept status = poll_run get (Suc k) (slept + 2) s"
  by (subst poll_run.simps) simp

lemma poll_run_raise:
  "st_value status \<in> set polling_statuses \<Longrightarrow> get k = Inl e \<Longrightarrow>
     poll_run get k slept status = Some (Inl e, Suc k, slept + 2)"
  by (subst poll_run.simps) simp

lemma poll_run_returns:
  "\<forall>i<n. st_value (sts i) \<in> set polling_statuses \<Longrightarrow>
   st_value (sts n) \<notin> set polling_statuses \<Longrightarrow>
   \<forall>i<n. get (k + i) = Inr (sts (Suc i)) \<Longrightarrow>
   poll_run get k slept (sts 0) = Some (Inr (sts n), k + n, slept + 2 * n)"
proof (induction n arbitrary: k slept sts)
  case 0
  then show ?case by (simp add: poll_run_exit)
next
  case (Suc n)
  from Suc.prems(1) have s0: "st_value (sts 0) \<in> set polling_statuses" by simp
  from Suc.prems(3) have g0: "get k = Inr (sts (Suc 0))" by force
  have "poll_run get (Suc k) (slept + 2) ((sts \<circ> Suc) 0)
          = Some (Inr ((sts \<circ> Suc) n), Suc k + n, slept + 2 + 2 * n)"
  proof (rule Suc.IH)
    show "\<forall>i<n. st_value ((sts \<circ> Suc) i) \<in> set polling_statuses" using Suc.prems(1) by simp
    show "st_value ((sts \<circ> Suc) n) \<notin> set polling_statuses" using Suc.prems(2) by simp
    show "\<forall>i<n. get (Suc k + i) = Inr ((sts \<circ> Suc) (Suc i))"
    proof (intro allI impI)
      fix i assume "i < n"
      then have "Suc i < Suc n" by simp
      with Suc.prems(3) have "get (k + Suc i) = Inr (sts (Suc (Suc i)))" by blast
      then show "get (Suc k + i) = Inr ((sts \<circ> Suc) (Suc i))" by simp
    qed
  qed
  moreover from s0 g0 have "poll_run get k slept (sts 0) = poll_run get (Suc k) (slept + 2) (sts (Suc 0))"
    by (rule poll_run_step)
  ultimately show ?case by simp
qed

lemma poll_run_Some_exits:
  assumes "poll_run get k slept status = Some y"
  shows "\<not> (\<exists>sts. sts 0 = status \<and> (\<forall>i. st_value (sts i) \<in> set polling_statuses)
               \<and> (\<forall>i. get (k + i) = Inr (sts (Suc i))))"
  using assms
proof (induction get k slept status y rule: poll_run.raw_induct[rotated 1, consumes 1])
  case (1 poll get k slept status y)
  show ?case
  proof
    assume "\<exists>sts. sts 0 = status \<and> (\<forall>i. st_value (sts i) \<in> set polling_statuses)
               \<and> (\<forall>i. get (k + i) = Inr (sts (Suc i)))"
    then obtain sts where s: "sts 0 = status" "\<forall>i. st_value (sts i) \<in> set polling_statuses"
      "\<forall>i. get (k + i) = Inr (sts (Suc i))" by blast
    from s(1,2) have "st_value status \<in> set polling_statuses" by auto
    moreover from s(3) have "get k = Inr (sts (Suc 0))" by (metis add.right_neutral)
    ultimately have "poll get (Suc k) (slept + 2) (sts (Suc 0)) = Some y"
      using 1(2) by simp
    from 1(1)[OF this]
    have "\<not> (\<exists>sts'. sts' 0 = sts (Suc 0) \<and> (\<forall>i. st_value (sts' i) \<in> set polling_statuses)
               \<and> (\<forall>i. get (Suc k + i) = Inr (sts' (Suc i))))" .
    moreover have "(sts \<circ> Suc) 0 = sts (Suc 0)
               \<and> (\<forall>i. st_value ((sts \<circ> Suc) i) \<in> set polling_statuses)
               \<and> (\<forall>i. get (Suc k + i) = Inr ((sts \<circ> Suc) (Suc i)))"
      using s(2,3) by (auto simp: ) (metis add_Suc_right)
    ultimately show False by blast
  qed
qed

lemma poll_run_diverges:
  assumes "\<forall>i. st_value (sts i) \<in> set polling_statuses"
    and "\<forall>i. get (k + i) = Inr (sts (Suc i))"
  shows "poll_run get k slept (sts 0) = None"
proof (cases "poll_run get k slept (sts 0)")
  case None
  then show ?thesis .
next
  case (Some y)
  from poll_run_Some_exits[OF Some] assms show ?thesis by blast
qed

lemma finish_run_shows_status:
  "ro_polls (finish_run svc st tid rid status k slept) = k
   \<and> ro_slept (finish_run svc st tid rid status k slept) = slept
   \<and> (\<exists>rest. ro_ui (finish_run svc st tid rid status k slept)
                = St_info (''Run status: '' @ st_shown status) # rest)"
  by (cases "messages_list svc tid rid") (simp_all add: finish_run_def)

lemma run_on_thread_polled:
  assumes "\<forall>p a. messages_create svc tid p a = None"
    and "runs_create svc tid (ORCHESTRATOR_AGENT_ID cfg) = Inr (rid, s0)"
    and "poll_run (runs_get svc tid rid) 0 0 s0 = Some (Inr status, k, slept)"
  shows "\<exists>st1. run_on_thread svc cfg st tid question = Some (finish_run svc st1 tid rid status k slept)"
  using assms by (auto simp: run_on_thread_def Let_def split: prod.splits)

lemma run_on_thread_never_returns:
  assumes "\<forall>p a. messages_create svc tid p a = None"
    and "runs_create svc tid (ORCHESTRATOR_AGENT_ID cfg) = Inr (rid, s0)"
    and "poll_run (runs_get svc tid rid) 0 0 s0 = None"
  shows "run_on_thread svc cfg st tid question = None"
  using assms by (simp add: run_on_thread_def Let_def split: prod.splits)

lemma run_button_thread:
  assumes "ss_thread_id st = Some tid \<or> (ss_thread_id st = None \<and> threads_create svc = Inr tid)"
  shows "\<exists>st'. run_button svc cfg st question = run_on_thread svc cfg st' tid question"
  using assms by (auto simp: run_button_def)

lemma text_chunks_acc:
  "text_chunks tmcs chunks =
     chunks @ filter (\<lambda>v. v \<noteq> []) (List.map_filter (\<lambda>tmc. Option.bind (tc_text tmc) td_value) tmcs)"
  by (induction tmcs arbitrary: chunks) (auto split: option.splits)

lemma message_chunks_acc:
  "message_chunks ms chunks =
     chunks @ concat (map spec_text_segments (filter (\<lambda>m. m_role m = ''assistant'') ms))"
proof (induction ms arbitrary: chunks)
  case Nil
  then show ?case by simp
next
  case (Cons m ms)
  have e: "m_text_messages m = [] \<Longrightarrow> spec_text_segments m = []"
    by (simp add: spec_text_segments_def)
  show ?case using Cons.IH e
    by (simp add: text_chunks_acc spec_text_segments_def)
qed

lemma show_output_page: "show_output page = spec_page_output page"
  by (simp add: show_output_def spec_page_output_def message_chunks_acc Let_def)

lemma spec_page_output_run:
  "spec_page_output (filter (\<lambda>m. m_run_id m = Some rid) all_messages)
     = spec_run_output all_messages rid"
  by (simp add: spec_page_output_def spec_run_output_def Let_def)




lemma finish_run_listed:
  "messages_list svc tid rid = Inr page \<Longrightarrow>
   finish_run svc st tid rid status k slept =
     \<lparr>ro_session = st,
      ro_ui = St_info (''Run status: '' @ st_shown status) # spec_page_output page,
      ro_ctl = Continue, ro_polls = k, ro_slept = slept\<rparr>"
  by (simp add: finish_run_def show_output_page)

text \<open>What the Run button shows when the loop has ended and the listing has answered.\<close>

lemma run_button_shows:
  assumes "ss_thread_id st = Some tid \<or> (ss_thread_id st = None \<and> threads_create svc = Inr tid)"
    and "\<forall>p a. messages_create svc tid p a = None"
    and "runs_create svc tid (ORCHESTRATOR_AGENT_ID cfg) = Inr (rid, s0)"
    and "poll_run (runs_get svc tid rid) 0 0 s0 = Some (Inr status, k, slept)"
    and "messages_list svc tid rid = Inr page"
  shows "\<exists>st1. run_button svc cfg st question =
           Some \<lparr>ro_session = st1,
                 ro_ui = St_info (''Run status: '' @ st_shown status) # spec_page_output page,
                 ro_ctl = Continue, ro_polls = k, ro_slept = slept\<rparr>"
proof -
  from run_button_thread[OF assms(1), of cfg question] obtain st' where
    b: "run_button svc cfg st question = run_on_thread svc cfg st' tid question" by blast
  from run_on_thread_polled[OF assms(2,3,4), of st' question] obtain st1 where
    r: "run_on_thread svc cfg st' tid question = Some (finish_run svc st1 tid rid status k slept)"
    by blast
  from b r finish_run_listed[OF assms(5), of st1 status k slept] show ?thesis by simp
qed

lemma spec_run_output_thread0:
  "spec_run_output thread0 ''run1'' =
     [St_markdown ''**Assistant:**'',
      St_write (''a'' @ [CHR 0x0A, CHR 0x0A] @ ''b'' @ [CHR 0x0A, CHR 0x0A] @ ''c'')]"
  by (simp add: spec_run_output_def spec_text_segments_def thread0_def text_part_def Let_def)



lemma poll_run_service_enum:
  "poll_run (runs_get service_enum ''t1'' ''run1'') 0 0 (statuses_enum 0)
     = Some (Inr (statuses_enum 2), 2, 4)"
proof -
  have "poll_run (runs_get service_enum ''t1'' ''run1'') 0 0 (statuses_enum 0)
          = Some (Inr (statuses_enum 2), 0 + 2, 0 + 2 * 2)"
    by (rule poll_run_returns)
       (simp_all add: statuses_enum_def polling_statuses_def service_enum_def service0_def)
  then show ?thesis by simp
qed

text \<open>
  C5, as stated, fails in its last part: the status shown is not the final fetched status
  verbatim when the SDK hands the status over as a member of its enumeration and the
  f-string of line 241 prints the member's name. On \<open>service_enum\<close> the loop ends, after
  two polls, with the status \<open>completed\<close>, and the handler shows
  \<open>Run status: RunStatus.COMPLETED\<close>.
\<close>

theorem run_status_shown_counterexample:
  "poll_run (runs_get service_enum ''t1'' ''run1'') 0 0 (statuses_enum 0)
     = Some (Inr (statuses_enum 2), 2, 4)
   \<and> st_value (statuses_enum 2) = ''completed''
   \<and> st_value (statuses_enum 2) \<notin> set polling_statuses
   \<and> map_option ro_ui (run_button service_enum settings0 session0 ''hi'')
       = Some [St_info ''Run status: RunStatus.COMPLETED'', St_markdown ''**Assistant:**'',
               St_write (''a'' @ [CHR 0x0A, CHR 0x0A] @ ''b'' @ [CHR 0x0A, CHR 0x0A] @ ''c'')]
   \<and> ''Run status: RunStatus.COMPLETED'' \<noteq> ''Run status: '' @ st_value (statuses_enum 2)"
proof -
  have t: "ss_thread_id session0 = Some ''t1''
           \<or> (ss_thread_id session0 = None \<and> threads_create service_enum = Inr ''t1'')"
    by (simp add: session0_def service_enum_def service0_def)
  have m: "\<forall>p a. messages_create service_enum ''t1'' p a = None"
    by (simp add: service_enum_def service0_def)
  have c: "runs_create service_enum ''t1'' (ORCHESTRATOR_AGENT_ID settings0)
             = Inr (''run1'', statuses_enum 0)"
    by (simp add: service_enum_def)
  have l: "messages_list service_enum ''t1'' ''run1''
             = Inr (filter (\<lambda>m. m_run_id m = Some ''run1'') thread0)"
    by (simp add: service_enum_def service0_def)
  have v: "st_value (statuses_enum 2) = ''completed''"
    "st_shown (statuses_enum 2) = ''RunStatus.COMPLETED''"
    by (simp_all add: statuses_enum_def)
  from run_button_shows[OF t m c poll_run_service_enum l, of "''hi''"]
  have ui: "map_option ro_ui (run_button service_enum settings0 session0 ''hi'')
       = Some [St_info ''Run status: RunStatus.COMPLETED'', St_markdown ''**Assistant:**'',
               St_write (''a'' @ [CHR 0x0A, CHR 0x0A] @ ''b'' @ [CHR 0x0A, CHR 0x0A] @ ''c'')]"
    by (auto simp: v spec_page_output_run spec_run_output_thread0)
  have n: "st_value (statuses_enum 2) \<notin> set polling_statuses"
    by (simp add: v polling_statuses_def)
  have d: "''Run status: RunStatus.COMPLETED'' \<noteq> ''Run status: '' @ st_value (statuses_enum 2)"
    by (simp add: v)
  from poll_run_service_enum v(1) n ui d show ?thesis by (intro conjI)
qed

text \<open>
  C5, amended. Let the Run button have its thread, its message and its run, created with
  the status \<open>sts 0\<close>, and let \<open>sts (k + 1)\<close> be the status that the \<open>k\<close>-th poll fetches.
  If the statuses \<open>sts 0, ..., sts (n - 1)\<close> are in \<open>{queued, in_progress,
  requires_action}\<close> and \<open>sts n\<close> is any status outside that set, the loop returns after
  exactly \<open>n\<close> polls and \<open>2 * n\<close> units of sleep with the status \<open>sts n\<close>, and the handler
  shows \<open>Run status:\<close> followed by what the f-string makes of \<open>sts n\<close>: the status
  verbatim when it is a plain string or prints as its value. If every status stays in
  the set, the loop, and with it the handler, never returns.
\<close>

theorem run_polling_loop:
  assumes "ss_thread_id st = Some tid \<or> (ss_thread_id st = None \<and> threads_create svc = Inr tid)"
    and "\<forall>p a. messages_create svc tid p a = None"
    and "runs_create svc tid (ORCHESTRATOR_AGENT_ID cfg) = Inr (rid, sts 0)"
  shows "((\<forall>i<n. st_value (sts i) \<in> set polling_statuses
                  \<and> runs_get svc tid rid i = Inr (sts (Suc i)))
           \<and> st_value (sts n) \<notin> set polling_statuses
          \<longrightarrow> poll_run (runs_get svc tid rid) 0 0 (sts 0) = Some (Inr (sts n), n, 2 * n)
            \<and> (\<exists>out rest. run_button svc cfg st question = Some out
                  \<and> ro_polls out = n \<and> ro_slept out = 2 * n
                  \<and> ro_ui out = St_info (''Run status: '' @ st_shown (sts n)) # rest
                  \<and> (st_shown (sts n) = st_value (sts n) \<longrightarrow>
                       ro_ui out = St_info (''Run status: '' @ st_value (sts n)) # rest)))
       \<and> ((\<forall>i. st_value (sts i) \<in> set polling_statuses
                \<and> runs_get svc tid rid i = Inr (sts (Suc i)))
          \<longrightarrow> poll_run (runs_get svc tid rid) 0 0 (sts 0) = None
            \<and> run_button svc cfg st question = None)"
proof (intro conjI impI)
  assume a: "(\<forall>i<n. st_value (sts i) \<in> set polling_statuses
                  \<and> runs_get svc tid rid i = Inr (sts (Suc i)))
           \<and> st_value (sts n) \<notin> set polling_statuses"
  from a have "\<forall>i<n. st_value (sts i) \<in> set polling_statuses"
    "st_value (sts n) \<notin> set polling_statuses"
    "\<forall>i<n. runs_get svc tid rid (0 + i) = Inr (sts (Suc i))" by simp_all
  from poll_run_returns[OF this, of 0]
  show p: "poll_run (runs_get svc tid rid) 0 0 (sts 0) = Some (Inr (sts n), n, 2 * n)" by simp
  from run_button_thread[OF assms(1), of cfg question] obtain st' where
    b: "run_button svc cfg st question = run_on_thread svc cfg st' tid question" by blast
  from run_on_thread_polled[OF assms(2,3) p, of st' question] obtain st1 where
    r: "run_on_thread svc cfg st' tid question = Some (finish_run svc st1 tid rid (sts n) n (2 * n))"
    by blast
  from finish_run_shows_status[of svc st1 tid rid "sts n" n "2 * n"] b r
  show "\<exists>out rest. run_button svc cfg st question = Some out
                  \<and> ro_polls out = n \<and> ro_slept out = 2 * n
                  \<and> ro_ui out = St_info (''Run status: '' @ st_shown (sts n)) # rest
                  \<and> (st_shown (sts n) = st_value (sts n) \<longrightarrow>
                       ro_ui out = St_info (''Run status: '' @ st_value (sts n)) # rest)" by auto
next
  assume a: "\<forall>i. st_value (sts i) \<in> set polling_statuses
                \<and> runs_get svc tid rid i = Inr (sts (Suc i))"
  then have "\<forall>i. st_value (sts i) \<in> set polling_statuses"
    "\<forall>i. runs_get svc tid rid (0 + i) = Inr (sts (Suc i))" by simp_all
  from poll_run_diverges[OF this, of 0]
  show p: "poll_run (runs_get svc tid rid) 0 0 (sts 0) = None" .
  from run_button_thread[OF assms(1), of cfg question] obtain st' where
    b: "run_button svc cfg st question = run_on_thread svc cfg st' tid question" by blast
  from run_on_thread_never_returns[OF assms(2,3) p, of st' question] b
  show "run_button svc cfg st question = None" by simp
qed

theorem run_polling_loop_witness:
  "(\<exists>out rest. run_button service0 settings0 session0 ''hi'' = Some out
       \<and> ro_polls out = 2 \<and> ro_slept out = 4
       \<and> ro_ui out = St_info ''Run status: completed'' # rest)
   \<and> poll_run (runs_get service0 ''t1'' ''run1'') 0 0 (plain_status ''queued'')
       = Some (Inr (plain_status ''completed''), 2, 4)
   \<and> run_button service_stuck settings0 session0 ''hi'' = None"
proof -
  have t: "ss_thread_id session0 = Some ''t1''
           \<or> (ss_thread_id session0 = None \<and> threads_create service0 = Inr ''t1'')"
    by (simp add: session0_def service0_def)
  have m: "\<forall>p a. messages_create service0 ''t1'' p a = None" by (simp add: service0_def)
  have c: "runs_create service0 ''t1'' (ORCHESTRATOR_AGENT_ID settings0) = Inr (''run1'', statuses0 0)"
    by (simp add: service0_def)
  have h: "(\<forall>i<2. st_value (statuses0 i) \<in> set polling_statuses
               \<and> runs_get service0 ''t1'' ''run1'' i = Inr (statuses0 (Suc i)))
           \<and> st_value (statuses0 2) \<notin> set polling_statuses"
    by (simp add: statuses0_def plain_status_def polling_statuses_def service0_def)
  from run_polling_loop[where sts=statuses0 and st=session0 and tid="''t1''" and svc=service0
         and cfg=settings0 and rid="''run1''" and n=2 and question="''hi''", OF t m c] h
  have a: "poll_run (runs_get service0 ''t1'' ''run1'') 0 0 (statuses0 0)
             = Some (Inr (statuses0 2), 2, 2 * 2)"
    "\<exists>out rest. run_button service0 settings0 session0 ''hi'' = Some out
       \<and> ro_polls out = 2 \<and> ro_slept out = 2 * 2
       \<and> ro_ui out = St_info (''Run status: '' @ st_shown (statuses0 2)) # rest" by blast+
  have t': "ss_thread_id session0 = Some ''t1''
           \<or> (ss_thread_id session0 = None \<and> threads_create service_stuck = Inr ''t1'')"
    by (simp add: session0_def service_stuck_def service0_def)
  have m': "\<forall>p a. messages_create service_stuck ''t1'' p a = None"
    by (simp add: service_stuck_def service0_def)
  have c': "runs_create service_stuck ''t1'' (ORCHESTRATOR_AGENT_ID settings0)
              = Inr (''run1'', plain_status ''queued'')"
    by (simp add: service_stuck_def)
  have h': "\<forall>i::nat. st_value (plain_status ''queued'') \<in> set polling_statuses
               \<and> runs_get service_stuck ''t1'' ''run1'' i = Inr (plain_status ''queued'')"
    by (simp add: plain_status_def polling_statuses_def service_stuck_def)
  from run_polling_loop[where sts="\<lambda>i. plain_status ''queued''" and st=session0 and tid="''t1''"
         and svc=service_stuck and cfg=settings0 and rid="''run1''" and question="''hi''",
         OF t' m' c'] h'
  have b: "run_button service_stuck settings0 session0 ''hi'' = None" by blast
  from a b show ?thesis by (simp add: statuses0_def plain_status_def)
qed




end
